theory Spec2Isabelle
  imports Main "HOL-Library.Word"
begin

unbundle bit_operations_syntax

section \<open>Bytes, strings and the JavaScript primitives the compiler uses\<close>

text \<open>
  A \<open>Uint8Array\<close> is a list of 8-bit words. A JavaScript string is a \<open>string\<close>: the
  sequence of its UTF-8 bytes, so that the en dash of the compiler's messages is three
  characters and every ASCII character (the separator \<open>.\<close> among them) is one.
\<close>

type_synonym bytes = "8 word list"

definition dquote :: string where
  "dquote = [CHR 0x22]"

definition en_dash :: string where
  "en_dash = [CHR 0xE2, CHR 0x80, CHR 0x93]"

text \<open>
  \<open>identifier.split('.')\<close>: the segments between the separators, in order. The result is
  never empty: the empty string splits into one empty segment.
\<close>

fun split_acc :: "char \<Rightarrow> string \<Rightarrow> string \<Rightarrow> string list" where
  "split_acc c acc [] = [rev acc]"
| "split_acc c acc (x # xs) =
     (if x = c then rev acc # split_acc c [] xs else split_acc c (x # acc) xs)"

definition split :: "string \<Rightarrow> char \<Rightarrow> string list" where
  "split s c = split_acc c [] s"

text \<open>
  Array destructuring and indexing: \<open>const [, , a, b] = xs\<close> binds \<open>a\<close> to \<open>xs[2]\<close> and
  \<open>b\<close> to \<open>xs[3]\<close>, each \<open>undefined\<close> (here \<open>None\<close>) beyond the end of the array.
\<close>

definition element :: "'a list \<Rightarrow> nat \<Rightarrow> 'a option" where
  "element xs n = (if n < length xs then Some (xs ! n) else None)"

text \<open>
  \<open>a | b\<close> on numbers: both operands are converted to 32-bit integers, the result is the
  signed value of their bitwise or. \<open>Uint8Array.of(n)\<close> is the one-element array holding
  \<open>n\<close> modulo 256.
\<close>

definition js_bitor :: "int \<Rightarrow> int \<Rightarrow> int" where
  "js_bitor a b = sint ((word_of_int a :: 32 word) OR word_of_int b)"

definition Uint8Array_of :: "int \<Rightarrow> bytes" where
  "Uint8Array_of n = [word_of_int n]"

text \<open>
  \<open>s.replace(c, r)\<close> with a one-character string pattern \<open>c\<close> replaces the first
  occurrence only. (The replacements used by the compiler contain no \<open>$\<close>.)
\<close>

fun replace :: "string \<Rightarrow> char \<Rightarrow> string \<Rightarrow> string" where
  "replace [] c r = []"
| "replace (x # xs) c r = (if x = c then r @ xs else x # replace xs c r)"

text \<open>
  A JavaScript number is a double. The numbers of this development are the integers, and
  its arithmetic is that of the safe integers, those of magnitude below \<open>2 ^ 53\<close>: there
  the addition of doubles is exact and \<open>toString\<close> prints every digit. Outside this range
  (where a sum is rounded and a large number is printed with an exponent) the two
  operations are left undefined, \<open>None\<close>.
\<close>

definition isSafeInteger :: "int \<Rightarrow> bool" where
  "isSafeInteger n = (- (2 ^ 53) < n \<and> n < 2 ^ 53)"

definition add :: "int \<Rightarrow> int \<Rightarrow> int option" where
  "add a b =
     (if isSafeInteger a \<and> isSafeInteger b \<and> isSafeInteger (a + b) then Some (a + b)
      else None)"

text \<open>
  \<open>n.toString()\<close> for a safe integer \<open>n\<close>: the decimal digits, after a minus sign when
  \<open>n\<close> is negative.
\<close>

definition digit :: "nat \<Rightarrow> char" where
  "digit d = ''0123456789'' ! d"

fun digits :: "nat \<Rightarrow> string" where
  "digits n = (if n < 10 then [digit n] else digits (n div 10) @ [digit (n mod 10)])"

declare digits.simps [simp del]

definition toString :: "int \<Rightarrow> string option" where
  "toString n =
     (if isSafeInteger n then
        Some (if n < 0 then CHR ''-'' # digits (nat (- n)) else digits (nat n))
      else None)"

text \<open>
  \<open>object[key]\<close> on a plain object. The objects of the compilation data and of the
  environment are plain objects: a key that is not an own property is looked up in
  \<open>Object.prototype\<close>, whose members (functions, and the prototype itself under
  \<open>__proto__\<close>) are not \<open>undefined\<close>. An object is the map of its own properties; a read
  gives the own value, or tells that the key names a member of \<open>Object.prototype\<close>, or is
  \<open>undefined\<close>.
\<close>

definition objectPrototype :: "string list" where
  "objectPrototype =
     [''constructor'', ''hasOwnProperty'', ''isPrototypeOf'', ''propertyIsEnumerable'',
      ''toLocaleString'', ''toString'', ''valueOf'', ''__proto__'', ''__defineGetter__'',
      ''__defineSetter__'', ''__lookupGetter__'', ''__lookupSetter__'']"

datatype 'a property = Own 'a | Member | Undefined

definition get :: "(string \<rightharpoonup> 'a) \<Rightarrow> string \<Rightarrow> 'a property" where
  "get object key =
     (case object key of
        Some v \<Rightarrow> Own v
      | None \<Rightarrow> (if key \<in> set objectPrototype then Member else Undefined))"

section \<open>Compiler operation results\<close>

text \<open>
  \<open>CompilerOperationResult\<close>: a success with its bytecode, a skip, or an error with its
  message. The flag of \<open>Error\<close> is the \<open>recoverable\<close> property: \<open>True\<close> where the source
  writes \<open>recoverable: true\<close>, \<open>False\<close> where the object has no such property. Where an
  operation returns as bytecode what it read from an object and the key names a member of
  \<open>Object.prototype\<close>, the bytecode of the success is that member and no byte array:
  \<open>SuccessMember\<close>, with the key.
\<close>

datatype CompilerOperationResult =
  Success bytes
| Skip
| Error string bool
| SuccessMember string

section \<open>Signing serialization types\<close>

text \<open>
  The enum \<open>SigningSerializationFlag\<close> is imported from the virtual machine's
  signing-serialization module; its numeric members are parameters of this development.
\<close>

record SigningSerializationFlag =
  all_outputs :: int
  no_outputs :: int
  corresponding_output :: int
  fork_id :: int
  single_input :: int

text \<open>The flag values of the BCH network, used where a concrete enum is needed.\<close>

definition flagsBCH :: SigningSerializationFlag where
  "flagsBCH = \<lparr> all_outputs = 0x01, no_outputs = 0x02, corresponding_output = 0x03,
     fork_id = 0x40, single_input = 0x80 \<rparr>"

text \<open>The members of the enum \<open>SigningSerializationAlgorithmIdentifier\<close>.\<close>

definition algorithm_all_outputs :: string where
  "algorithm_all_outputs = ''all_outputs''"

definition algorithm_all_outputs_single_input :: string where
  "algorithm_all_outputs_single_input = ''all_outputs_single_input''"

definition algorithm_corresponding_output :: string where
  "algorithm_corresponding_output = ''corresponding_output''"

definition algorithm_corresponding_output_single_input :: string where
  "algorithm_corresponding_output_single_input = ''corresponding_output_single_input''"

definition algorithm_no_outputs :: string where
  "algorithm_no_outputs = ''no_outputs''"

definition algorithm_no_outputs_single_input :: string where
  "algorithm_no_outputs_single_input = ''no_outputs_single_input''"

definition algorithmIdentifiers :: "string list" where
  "algorithmIdentifiers =
     [algorithm_all_outputs, algorithm_all_outputs_single_input,
      algorithm_corresponding_output, algorithm_corresponding_output_single_input,
      algorithm_no_outputs, algorithm_no_outputs_single_input]"

text \<open>
  \<open>getSigningSerializationType(algorithmIdentifier, prefix = '')\<close>: the \<open>switch\<close> compares
  the identifier with each prefixed enum member in turn; \<open>None\<close> is \<open>undefined\<close>.
\<close>

definition getSigningSerializationType ::
  "SigningSerializationFlag \<Rightarrow> string \<Rightarrow> string \<Rightarrow> bytes option" where
  "getSigningSerializationType F algorithmIdentifier prefix =
     (if algorithmIdentifier = prefix @ algorithm_all_outputs then
        Some (Uint8Array_of (js_bitor (all_outputs F) (fork_id F)))
      else if algorithmIdentifier = prefix @ algorithm_all_outputs_single_input then
        Some (Uint8Array_of (js_bitor (js_bitor (all_outputs F) (single_input F)) (fork_id F)))
      else if algorithmIdentifier = prefix @ algorithm_corresponding_output then
        Some (Uint8Array_of (js_bitor (corresponding_output F) (fork_id F)))
      else if algorithmIdentifier = prefix @ algorithm_corresponding_output_single_input then
        Some (Uint8Array_of
          (js_bitor (js_bitor (corresponding_output F) (single_input F)) (fork_id F)))
      else if algorithmIdentifier = prefix @ algorithm_no_outputs then
        Some (Uint8Array_of (js_bitor (no_outputs F) (fork_id F)))
      else if algorithmIdentifier = prefix @ algorithm_no_outputs_single_input then
        Some (Uint8Array_of (js_bitor (js_bitor (no_outputs F) (single_input F)) (fork_id F)))
      else None)"

text \<open>
  The specification's table of SIGHASH bytes, for comparison with the function above: each
  algorithm identifier with the bitwise or of the bytes of its flags.
\<close>

definition flag_byte :: "int \<Rightarrow> 8 word" where
  "flag_byte n = word_of_int n"

definition sighashTable :: "SigningSerializationFlag \<Rightarrow> (string \<times> 8 word) list" where
  "sighashTable F =
     [(''all_outputs'', flag_byte (all_outputs F) OR flag_byte (fork_id F)),
      (''all_outputs_single_input'',
         flag_byte (all_outputs F) OR flag_byte (single_input F) OR flag_byte (fork_id F)),
      (''corresponding_output'', flag_byte (corresponding_output F) OR flag_byte (fork_id F)),
      (''corresponding_output_single_input'',
         flag_byte (corresponding_output F) OR flag_byte (single_input F)
           OR flag_byte (fork_id F)),
      (''no_outputs'', flag_byte (no_outputs F) OR flag_byte (fork_id F)),
      (''no_outputs_single_input'',
         flag_byte (no_outputs F) OR flag_byte (single_input F) OR flag_byte (fork_id F))]"

section \<open>Compilation data and environment\<close>

text \<open>
  \<open>CompilerOperationDataCommon\<close>, the transaction context of a signature. An optional
  property is an \<open>option\<close>; the numbers are integers.
\<close>

record CompilerOperationDataCommon =
  correspondingOutput :: "bytes option"
  coveredBytecode :: bytes
  locktime :: int
  outpointIndex :: int
  outpointTransactionHash :: bytes
  outputValue :: int
  sequenceNumber :: int
  transactionOutpoints :: bytes
  transactionOutputs :: bytes
  transactionSequenceNumbers :: bytes
  version :: int

record Keys =
  privateKeys :: "(string \<rightharpoonup> bytes) option"
  publicKeys :: "(string \<rightharpoonup> bytes) option"

record HdKeys =
  addressIndex :: "int option"
  hdPrivateKeys :: "(string \<rightharpoonup> string) option"
  hdPublicKeys :: "(string \<rightharpoonup> string) option"
  derivedPublicKeys :: "(string \<rightharpoonup> bytes) option"

record CompilationData =
  keys :: "Keys option"
  hdKeys :: "HdKeys option"
  addressData :: "(string \<rightharpoonup> bytes) option"
  walletData :: "(string \<rightharpoonup> bytes) option"
  operationData :: "CompilerOperationDataCommon option"

datatype VariableType = Key | HdKey | AddressData | WalletData

record AuthenticationTemplateVariable =
  variableType :: VariableType
  addressOffset :: "int option"
  privateDerivationPath :: "string option"
  publicDerivationPath :: "string option"

text \<open>
  The capability handles. Only \<open>hash\<close> of a hash function is called by the operations, so
  a hash function is its \<open>hash\<close>; \<open>Secp256k1\<close> is the three methods of section 4.1.
\<close>

record Secp256k1 =
  derivePublicKeyCompressed :: "bytes \<Rightarrow> bytes"
  signMessageHashDER :: "bytes \<Rightarrow> bytes \<Rightarrow> bytes"
  signMessageHashSchnorr :: "bytes \<Rightarrow> bytes \<Rightarrow> bytes"

record CompilationEnvironment =
  scripts :: "string \<rightharpoonup> string"
  variables :: "(string \<rightharpoonup> AuthenticationTemplateVariable) option"
  entityOwnership :: "(string \<rightharpoonup> string) option"
  ripemd160 :: "(bytes \<Rightarrow> bytes) option"
  secp256k1 :: "Secp256k1 option"
  sha256 :: "(bytes \<Rightarrow> bytes) option"
  sha512 :: "(bytes \<Rightarrow> bytes) option"

section \<open>BCH signatures\<close>

text \<open>The messages of the signing operations, as the template literals of the source build them.\<close>

definition unknownComponentMessage :: "string \<Rightarrow> string \<Rightarrow> string" where
  "unknownComponentMessage identifier unknown =
     ''Unknown component in '' @ dquote @ identifier @ dquote @ '' '' @ en_dash
       @ '' the fragment '' @ dquote @ unknown @ dquote @ '' is not recognized.''"

definition invalidSignatureMessage :: "string \<Rightarrow> string" where
  "invalidSignatureMessage operationName =
     ''Invalid signature identifier. Signatures must be of the form: '' @ dquote
       @ ''[variable_id].'' @ operationName @ ''.[signing_serialization_type]'' @ dquote
       @ ''.''"

definition unknownAlgorithmMessage :: "string \<Rightarrow> string" where
  "unknownAlgorithmMessage algorithm =
     ''Unknown signing serialization algorithm, '' @ dquote @ algorithm @ dquote @ ''.''"

text \<open>
  \<open>compilerOperationHelperComputeSignatureBCH\<close>. The function
  \<open>generateSigningSerializationBCH\<close> is imported from the virtual machine: it is the
  parameter \<open>generate\<close>, applied to the hash function, the signing serialization type and
  the eleven properties the source copies one by one out of \<open>operationData\<close>.
\<close>

type_synonym generateSigningSerialization =
  "(bytes \<Rightarrow> bytes) \<Rightarrow> bytes \<Rightarrow> CompilerOperationDataCommon \<Rightarrow> bytes"

definition compilerOperationHelperComputeSignatureBCH ::
  "SigningSerializationFlag \<Rightarrow> generateSigningSerialization \<Rightarrow> string \<Rightarrow>
   CompilerOperationDataCommon \<Rightarrow> string \<Rightarrow> bytes \<Rightarrow> (bytes \<Rightarrow> bytes) \<Rightarrow>
   (bytes \<Rightarrow> bytes \<Rightarrow> bytes) \<Rightarrow> CompilerOperationResult" where
  "compilerOperationHelperComputeSignatureBCH F generate identifier opData operationName
     privateKey hash sign =
     (let parts = split identifier CHR ''.'';
          algorithm = element parts 2;
          unknown = element parts 3
      in case unknown of
        Some u \<Rightarrow> Error (unknownComponentMessage identifier u) False
      | None \<Rightarrow>
         (case algorithm of
            None \<Rightarrow> Error (invalidSignatureMessage operationName) False
          | Some a \<Rightarrow>
             (case getSigningSerializationType F a [] of
                None \<Rightarrow> Error (unknownAlgorithmMessage a) False
              | Some signingSerializationType \<Rightarrow>
                 (let serialization = generate hash signingSerializationType opData;
                      digest = hash (hash serialization);
                      bitcoinEncodedSignature = sign privateKey digest @ signingSerializationType
                  in Success bitcoinEncodedSignature))))"

text \<open>The last byte of a successful result's bytecode, when there is one.\<close>

definition finalByte :: "CompilerOperationResult \<Rightarrow> 8 word option" where
  "finalByte r = (case r of Success b \<Rightarrow> (if b = [] then None else Some (last b)) | _ \<Rightarrow> None)"

section \<open>BCH data signatures\<close>

text \<open>
  \<open>resolveScriptIdentifier\<close> is imported from the language module: it is a parameter. Its
  result is the compiled script (an object with a \<open>bytecode\<close>), the message of a
  compilation error (a string), or \<open>false\<close>.
\<close>

datatype ScriptResolution =
  Compiled bytes
| CompilationError string
| Unresolved

definition invalidDataSignatureMessage :: "string \<Rightarrow> string" where
  "invalidDataSignatureMessage operationName =
     ''Invalid data signature identifier. Data signatures must be of the form: '' @ dquote
       @ ''[variable_id].'' @ operationName @ ''.[target_script_id]'' @ dquote @ ''.''"

definition unknownTargetMessage :: "string \<Rightarrow> string" where
  "unknownTargetMessage scriptId =
     ''Data signature tried to sign an unknown target script, '' @ dquote @ scriptId
       @ dquote @ ''.''"

definition compilerOperationHelperComputeDataSignatureBCH ::
  "(CompilationData \<Rightarrow> CompilationEnvironment \<Rightarrow> string \<Rightarrow> ScriptResolution) \<Rightarrow>
   CompilationData \<Rightarrow> CompilationEnvironment \<Rightarrow> string \<Rightarrow> string \<Rightarrow> bytes \<Rightarrow>
   (bytes \<Rightarrow> bytes) \<Rightarrow> (bytes \<Rightarrow> bytes \<Rightarrow> bytes) \<Rightarrow> CompilerOperationResult" where
  "compilerOperationHelperComputeDataSignatureBCH resolveScriptIdentifier data environment
     identifier operationName privateKey hash sign =
     (let parts = split identifier CHR ''.'';
          scriptId = element parts 2;
          unknown = element parts 3
      in case unknown of
        Some u \<Rightarrow> Error (unknownComponentMessage identifier u) False
      | None \<Rightarrow>
         (case scriptId of
            None \<Rightarrow> Error (invalidDataSignatureMessage operationName) False
          | Some target \<Rightarrow>
             (let signingTarget = get (scripts environment) target;
                  compiledTarget = resolveScriptIdentifier data environment target
              in if signingTarget = Undefined \<or> compiledTarget = Unresolved then
                   Error (unknownTargetMessage target) False
                 else case compiledTarget of
                   CompilationError message \<Rightarrow> Error message False
                 | Compiled bytecode \<Rightarrow> Success (sign privateKey (hash bytecode))
                 | Unresolved \<Rightarrow> Error (unknownTargetMessage target) False)))"

section \<open>The compiler operation protocol\<close>

text \<open>
  An operation maps an identifier, the compilation data and the environment to a result:
  \<open>Inr\<close> of the result the source returns. \<open>Inl\<close> is for the runs that return none of
  the results above:
  \<^item> \<open>TypeError\<close>: reading a property of \<open>undefined\<close> throws;
  \<^item> \<open>InheritedMember key\<close>: the source read, under \<open>key\<close>, a member of
    \<open>Object.prototype\<close> and goes on with it in place of a key or a name (it hands it to a
    capability or a helper, or uses it as a property key); what it then returns depends on
    the text of the member and on the capability, and is not determined here;
  \<^item> \<open>UnsafeNumber\<close>: the source computes with a number outside the safe integers.
\<close>

datatype irregular = TypeError | InheritedMember string | UnsafeNumber

type_synonym outcome = "irregular + CompilerOperationResult"

type_synonym operation =
  "string \<Rightarrow> CompilationData \<Rightarrow> CompilationEnvironment \<Rightarrow> outcome"

text \<open>
  Modelled from the spec: the presence check of \<open>compilerOperationRequires\<close>, which is
  not among the source files. A property of the data or of the environment is present when
  it is not \<open>undefined\<close>; the error for a missing property names it, in the words of
  scenario S2.
\<close>

definition dataProperty :: "CompilationData \<Rightarrow> string \<Rightarrow> bool" where
  "dataProperty data p =
     (if p = ''keys'' then keys data \<noteq> None
      else if p = ''hdKeys'' then hdKeys data \<noteq> None
      else if p = ''addressData'' then addressData data \<noteq> None
      else if p = ''walletData'' then walletData data \<noteq> None
      else if p = ''operationData'' then operationData data \<noteq> None
      else False)"

definition environmentProperty :: "CompilationEnvironment \<Rightarrow> string \<Rightarrow> bool" where
  "environmentProperty environment p =
     (if p = ''scripts'' then True
      else if p = ''variables'' then variables environment \<noteq> None
      else if p = ''entityOwnership'' then entityOwnership environment \<noteq> None
      else if p = ''ripemd160'' then ripemd160 environment \<noteq> None
      else if p = ''secp256k1'' then secp256k1 environment \<noteq> None
      else if p = ''sha256'' then sha256 environment \<noteq> None
      else if p = ''sha512'' then sha512 environment \<noteq> None
      else False)"

definition missingPropertyMessage :: "string \<Rightarrow> string" where
  "missingPropertyMessage p = ''missing property: '' @ p"

text \<open>
  Modelled from the spec: \<open>compilerOperationRequires\<close>, of the compiler operation helpers,
  is not among the source files. Section 4.2: before calling the operation it verifies that
  every listed property is present on the data and the environment; when one is missing the
  result is a skip if \<open>canBeSkipped\<close>, a non-recoverable error naming the missing property
  otherwise; when all are present the operation runs and its result is returned verbatim.
\<close>

definition compilerOperationRequires ::
  "bool \<Rightarrow> string list \<Rightarrow> string list \<Rightarrow> operation \<Rightarrow> operation" where
  "compilerOperationRequires canBeSkipped dataProperties environmentProperties operation
     identifier data environment =
     (case filter (\<lambda>p. \<not> dataProperty data p) dataProperties
           @ filter (\<lambda>p. \<not> environmentProperty environment p) environmentProperties of
        [] \<Rightarrow> operation identifier data environment
      | p # _ \<Rightarrow>
         (if canBeSkipped then Inr Skip else Inr (Error (missingPropertyMessage p) False)))"

text \<open>
  Modelled from the spec: \<open>attemptCompilerOperations\<close>, of the compiler operation helpers,
  is not among the source files. Section 4.2: the operations are invoked in order; a skip
  advances to the next, a success is returned immediately, a recoverable error also
  advances, a non-recoverable error aborts and is returned; if every operation skips or
  recoverably errors, the result is the last error, or a synthesized error when there is
  none. The source passes the chain as a list of operations and a final operation. An
  exception thrown by an operation is not caught.
\<close>

fun attemptChain :: "operation list \<Rightarrow> CompilerOperationResult option \<Rightarrow> operation" where
  "attemptChain [] lastError identifier data environment =
     Inr (case lastError of
            Some e \<Rightarrow> e
          | None \<Rightarrow> Error ''no operation produced a result'' False)"
| "attemptChain (operation # operations) lastError identifier data environment =
     (case operation identifier data environment of
        Inl e \<Rightarrow> Inl e
      | Inr (Success bytecode) \<Rightarrow> Inr (Success bytecode)
      | Inr (SuccessMember key) \<Rightarrow> Inr (SuccessMember key)
      | Inr Skip \<Rightarrow> attemptChain operations lastError identifier data environment
      | Inr (Error message recoverable) \<Rightarrow>
         (if recoverable then
            attemptChain operations (Some (Error message recoverable)) identifier data
              environment
          else Inr (Error message recoverable)))"

text \<open>
  Modelled from the spec: \<open>attemptCompilerOperations(operations, finalOperation)\<close> is the
  chain of section 4.2 over the operations followed by the final operation.
\<close>

definition attemptCompilerOperations :: "operation list \<Rightarrow> operation \<Rightarrow> operation" where
  "attemptCompilerOperations operations finalOperation =
     attemptChain (operations @ [finalOperation]) None"

definition isRecoverableError :: "outcome \<Rightarrow> bool" where
  "isRecoverableError r = (case r of Inr (Error message recoverable) \<Rightarrow> recoverable | _ \<Rightarrow> False)"

definition isFatalError :: "outcome \<Rightarrow> bool" where
  "isFatalError r = (case r of Inr (Error message recoverable) \<Rightarrow> \<not> recoverable | _ \<Rightarrow> False)"

section \<open>Common operations\<close>

text \<open>
  \<open>const [variableId] = identifier.split('.')\<close>: the first segment, which every split
  has.
\<close>

definition variableIdOf :: "string \<Rightarrow> string" where
  "variableIdOf identifier = hd (split identifier CHR ''.'')"

subsection \<open>The public key of a \<open>Key\<close>\<close>

definition missingKeysMessage :: "string \<Rightarrow> string \<Rightarrow> string" where
  "missingKeysMessage identifier variableId =
     ''Identifier '' @ dquote @ identifier @ dquote
       @ '' refers to a public key, but no public or private keys for '' @ dquote
       @ variableId @ dquote @ '' were provided in the compilation data.''"

text \<open>The first operation of \<open>compilerOperationKeyPublicKeyCommon\<close>: a precomputed key.\<close>

definition keyPublicKeyPrecomputed :: operation where
  "keyPublicKeyPrecomputed identifier data environment =
     (case keys data of
        None \<Rightarrow> Inl TypeError
      | Some ks \<Rightarrow>
         (let variableId = variableIdOf identifier
          in case publicKeys ks of
            None \<Rightarrow> Inr Skip
          | Some pks \<Rightarrow>
             (case get pks variableId of
                Own precomputed \<Rightarrow> Inr (Success precomputed)
              | Member \<Rightarrow> Inr (SuccessMember variableId)
              | Undefined \<Rightarrow> Inr Skip)))"

text \<open>The final operation of \<open>compilerOperationKeyPublicKeyCommon\<close>: derivation.\<close>

definition keyPublicKeyDerived :: operation where
  "keyPublicKeyDerived identifier data environment =
     (case keys data of
        None \<Rightarrow> Inl TypeError
      | Some ks \<Rightarrow>
         (let variableId = variableIdOf identifier;
              missing = Inr (Error (missingKeysMessage identifier variableId) True)
          in case privateKeys ks of
            None \<Rightarrow> missing
          | Some prks \<Rightarrow>
             (case get prks variableId of
                Undefined \<Rightarrow> missing
              | Own privateKey \<Rightarrow>
                 (case secp256k1 environment of
                    None \<Rightarrow> Inl TypeError
                  | Some curve \<Rightarrow> Inr (Success (derivePublicKeyCompressed curve privateKey)))
              | Member \<Rightarrow>
                 (case secp256k1 environment of
                    None \<Rightarrow> Inl TypeError
                  | Some curve \<Rightarrow> Inl (InheritedMember variableId)))))"

definition compilerOperationKeyPublicKeyCommon :: operation where
  "compilerOperationKeyPublicKeyCommon =
     attemptCompilerOperations
       [compilerOperationRequires True [''keys''] [] keyPublicKeyPrecomputed]
       (compilerOperationRequires False [''keys''] [''secp256k1''] keyPublicKeyDerived)"

text \<open>
  The keys the compilation data provides for a variable (its own properties), and what
  the source reads for the variable: \<open>keys.publicKeys[variableId]\<close> and
  \<open>keys.privateKeys[variableId]\<close>, \<open>undefined\<close> where an object on the way is absent.
\<close>

definition publicKeyProperty :: "CompilationData \<Rightarrow> string \<Rightarrow> bytes property" where
  "publicKeyProperty data variableId =
     (case keys data of
        None \<Rightarrow> Undefined
      | Some ks \<Rightarrow>
         (case publicKeys ks of None \<Rightarrow> Undefined | Some pks \<Rightarrow> get pks variableId))"

definition privateKeyProperty :: "CompilationData \<Rightarrow> string \<Rightarrow> bytes property" where
  "privateKeyProperty data variableId =
     (case keys data of
        None \<Rightarrow> Undefined
      | Some ks \<Rightarrow>
         (case privateKeys ks of None \<Rightarrow> Undefined | Some prks \<Rightarrow> get prks variableId))"

definition providedPublicKey :: "CompilationData \<Rightarrow> string \<Rightarrow> bytes option" where
  "providedPublicKey data variableId =
     (case keys data of
        None \<Rightarrow> None
      | Some ks \<Rightarrow> (case publicKeys ks of None \<Rightarrow> None | Some pks \<Rightarrow> pks variableId))"

definition providedPrivateKey :: "CompilationData \<Rightarrow> string \<Rightarrow> bytes option" where
  "providedPrivateKey data variableId =
     (case keys data of
        None \<Rightarrow> None
      | Some ks \<Rightarrow> (case privateKeys ks of None \<Rightarrow> None | Some prks \<Rightarrow> prks variableId))"

subsection \<open>Components of the signing serialization\<close>

definition correspondingOutputOperation :: operation where
  "correspondingOutputOperation identifier data environment =
     (case operationData data of
        None \<Rightarrow> Inl TypeError
      | Some opData \<Rightarrow>
         (case correspondingOutput opData of
            None \<Rightarrow> Inr (Success [])
          | Some output \<Rightarrow> Inr (Success output)))"

definition compilerOperationSigningSerializationCorrespondingOutput :: operation where
  "compilerOperationSigningSerializationCorrespondingOutput =
     compilerOperationRequires False [''operationData''] [] correspondingOutputOperation"

definition correspondingOutputHashOperation :: operation where
  "correspondingOutputHashOperation identifier data environment =
     (case operationData data of
        None \<Rightarrow> Inl TypeError
      | Some opData \<Rightarrow>
         (case correspondingOutput opData of
            None \<Rightarrow> Inr (Success [])
          | Some output \<Rightarrow>
             (case sha256 environment of
                None \<Rightarrow> Inl TypeError
              | Some hash \<Rightarrow> Inr (Success (hash (hash output))))))"

definition compilerOperationSigningSerializationCorrespondingOutputHash :: operation where
  "compilerOperationSigningSerializationCorrespondingOutputHash =
     compilerOperationRequires False [''operationData''] [''sha256'']
       correspondingOutputHashOperation"

subsection \<open>The full signing serialization\<close>

definition invalidSigningSerializationMessage :: string where
  "invalidSigningSerializationMessage =
     ''Invalid signing serialization operation. Include the desired component or ''
       @ ''algorithm, e.g. '' @ dquote @ ''signing_serialization.version'' @ dquote @ ''.''"

definition signingSerializationFullOperation ::
  "SigningSerializationFlag \<Rightarrow> generateSigningSerialization \<Rightarrow> operation" where
  "signingSerializationFullOperation F generate identifier data environment =
     (let parts = split identifier CHR ''.'';
          algorithmOrComponent = element parts 1;
          unknownPart = element parts 2
      in case algorithmOrComponent of
        None \<Rightarrow> Inr (Error invalidSigningSerializationMessage False)
      | Some a \<Rightarrow>
         (case unknownPart of
            Some u \<Rightarrow> Inr (Error (unknownComponentMessage identifier u) False)
          | None \<Rightarrow>
             (case getSigningSerializationType F a ''full_'' of
                None \<Rightarrow> Inr (Error (unknownAlgorithmMessage a) False)
              | Some signingSerializationType \<Rightarrow>
                 (case operationData data of
                    None \<Rightarrow> Inl TypeError
                  | Some opData \<Rightarrow>
                     (case sha256 environment of
                        None \<Rightarrow> Inl TypeError
                      | Some hash \<Rightarrow>
                         Inr (Success (generate hash signingSerializationType opData)))))))"

definition compilerOperationSigningSerializationFullBCH ::
  "SigningSerializationFlag \<Rightarrow> generateSigningSerialization \<Rightarrow> operation" where
  "compilerOperationSigningSerializationFullBCH F generate =
     compilerOperationRequires False [''operationData''] [''sha256'']
       (signingSerializationFullOperation F generate)"

subsection \<open>The public key of an \<open>HdKey\<close>\<close>

text \<open>
  The enum \<open>CompilerDefaults\<close>, the HD key utilities \<open>decodeHdPublicKey\<close> and
  \<open>deriveHdPath\<close> and three helpers of the compiler operations are imported from other
  modules: they are parameters. A utility returns a node or the message of its error;
  of a node, the compiler reads the public key only.
\<close>

record CompilerDefaults =
  hdKeyAddressOffset :: int
  hdKeyPrivateDerivationPath :: string

record HdPublicNode =
  publicKey :: bytes

record HdKeyCollaborators =
  compilerOperationHelperUnknownEntity :: "string \<Rightarrow> string \<Rightarrow> CompilerOperationResult"
  compilerOperationHelperAddressIndex :: "string \<Rightarrow> CompilerOperationResult"
  compilerOperationHelperDeriveHdPrivateNode ::
    "int \<Rightarrow> string \<Rightarrow> string \<Rightarrow> CompilationEnvironment \<Rightarrow>
     AuthenticationTemplateVariable property \<Rightarrow> string \<Rightarrow> CompilerOperationResult"
  decodeHdPublicKey :: "CompilationEnvironment \<Rightarrow> string \<Rightarrow> string + HdPublicNode"
  deriveHdPath :: "CompilationEnvironment \<Rightarrow> HdPublicNode \<Rightarrow> string \<Rightarrow> string + HdPublicNode"

definition missingHdKeyMessage :: "string \<Rightarrow> string \<Rightarrow> string" where
  "missingHdKeyMessage identifier entityId =
     ''Identifier '' @ dquote @ identifier @ dquote @ '' refers to an HdKey owned by ''
       @ dquote @ entityId @ dquote
       @ '', but an HD private key or HD public key for this entity was not provided in ''
       @ ''the compilation data.''"

definition undecodableHdKeyMessage :: "string \<Rightarrow> string \<Rightarrow> string \<Rightarrow> string" where
  "undecodableHdKeyMessage identifier entityId reason =
     ''Could not generate '' @ dquote @ identifier @ dquote @ '' '' @ en_dash
       @ '' the HD public key provided for '' @ dquote @ entityId @ dquote
       @ '' could not be decoded: '' @ reason"

definition underivablePathMessage :: "string \<Rightarrow> string \<Rightarrow> string \<Rightarrow> string \<Rightarrow> string" where
  "underivablePathMessage identifier instancePath entityId reason =
     ''Could not generate '' @ dquote @ identifier @ dquote @ '' '' @ en_dash
       @ '' the path '' @ dquote @ instancePath @ dquote
       @ '' could not be derived for entity '' @ dquote @ entityId @ dquote @ '': ''
       @ reason"

text \<open>
  \<open>hdKey.addressOffset\<close>, \<open>hdKey.privateDerivationPath\<close> and
  \<open>hdKey.publicDerivationPath\<close>, for what \<open>environment.variables[variableId]\<close> gave:
  the properties of the variable; three times \<open>undefined\<close> on a member of
  \<open>Object.prototype\<close>, which has none of them; on \<open>undefined\<close> the read throws
  (\<open>None\<close>).
\<close>

definition hdKeyProperties ::
  "AuthenticationTemplateVariable property \<Rightarrow>
   (int option \<times> string option \<times> string option) option" where
  "hdKeyProperties hdKey =
     (case hdKey of
        Own key \<Rightarrow>
          Some (addressOffset key, privateDerivationPath key, publicDerivationPath key)
      | Member \<Rightarrow> Some (None, None, None)
      | Undefined \<Rightarrow> None)"

text \<open>
  The instance path of the public derivation (lines 427 to 436 of the operation): \<open>??\<close>
  takes the default where the property is \<open>undefined\<close>. The path is \<open>None\<close> where the
  sum leaves the safe integers.
\<close>

definition publicInstancePath ::
  "CompilerDefaults \<Rightarrow> int option \<Rightarrow> string option \<Rightarrow> string option \<Rightarrow> int \<Rightarrow>
   string option" where
  "publicInstancePath defaults hdKeyAddressOffset' hdKeyPrivatePath hdKeyPublicPath index =
     (let offset = (case hdKeyAddressOffset' of
                      Some n \<Rightarrow> n
                    | None \<Rightarrow> hdKeyAddressOffset defaults);
          privatePath = (case hdKeyPrivatePath of
                           Some path \<Rightarrow> path
                         | None \<Rightarrow> hdKeyPrivateDerivationPath defaults);
          publicPath = (case hdKeyPublicPath of
                          Some path \<Rightarrow> path
                        | None \<Rightarrow> replace privatePath CHR ''m'' ''M'')
      in case add index offset of
        None \<Rightarrow> None
      | Some i \<Rightarrow>
         (case toString i of
            None \<Rightarrow> None
          | Some rendering \<Rightarrow> Some (replace publicPath CHR ''i'' rendering)))"

text \<open>The first operation of \<open>compilerOperationHdKeyPublicKeyCommon\<close>: a precomputed key.\<close>

definition hdKeyPublicKeyPrecomputed :: operation where
  "hdKeyPublicKeyPrecomputed identifier data environment =
     (case hdKeys data of
        None \<Rightarrow> Inl TypeError
      | Some hds \<Rightarrow>
         (let variableId = variableIdOf identifier
          in case derivedPublicKeys hds of
            None \<Rightarrow> Inr Skip
          | Some dpks \<Rightarrow>
             (case get dpks variableId of
                Own derived \<Rightarrow> Inr (Success derived)
              | Member \<Rightarrow> Inr (SuccessMember variableId)
              | Undefined \<Rightarrow> Inr Skip)))"

text \<open>
  The final operation: derivation from the HD private key of the owning entity, or else
  from its HD public key. The variable is read from the environment without a check
  (\<open>as HdKey\<close>). The helper of the private derivation returns an error or a success; its
  type has no skip. Where the owning entity, or one of its HD keys, is a member of
  \<open>Object.prototype\<close>, the source goes on with the member: it is used as a property key
  and in the messages, or handed to the helper and to \<open>decodeHdPublicKey\<close>.
\<close>

definition hdKeyPublicKeyDerived ::
  "CompilerDefaults \<Rightarrow> HdKeyCollaborators \<Rightarrow> operation" where
  "hdKeyPublicKeyDerived defaults H identifier data environment =
     (case hdKeys data of
        None \<Rightarrow> Inl TypeError
      | Some hds \<Rightarrow>
     (let variableId = variableIdOf identifier
      in case entityOwnership environment of
        None \<Rightarrow> Inl TypeError
      | Some owners \<Rightarrow>
     (case get owners variableId of
        Undefined \<Rightarrow> Inr (compilerOperationHelperUnknownEntity H identifier variableId)
      | Member \<Rightarrow>
         (case addressIndex hds of
            None \<Rightarrow> Inr (compilerOperationHelperAddressIndex H identifier)
          | Some index \<Rightarrow> Inl (InheritedMember variableId))
      | Own entityId \<Rightarrow>
     (case addressIndex hds of
        None \<Rightarrow> Inr (compilerOperationHelperAddressIndex H identifier)
      | Some index \<Rightarrow>
     (let entityHdPrivateKey =
            (case hdPrivateKeys hds of None \<Rightarrow> Undefined | Some prks \<Rightarrow> get prks entityId)
      in case variables environment of
        None \<Rightarrow> Inl TypeError
      | Some vars \<Rightarrow>
     (let hdKey = get vars variableId
      in case entityHdPrivateKey of
        Own privateKey \<Rightarrow>
          (case compilerOperationHelperDeriveHdPrivateNode H index privateKey entityId
                  environment hdKey identifier of
             Error message recoverable \<Rightarrow> Inr (Error message recoverable)
           | Success node \<Rightarrow>
              (case secp256k1 environment of
                 None \<Rightarrow> Inl TypeError
               | Some curve \<Rightarrow> Inr (Success (derivePublicKeyCompressed curve node)))
           | Skip \<Rightarrow> Inl TypeError
           | SuccessMember key \<Rightarrow> Inl (InheritedMember key))
      | Member \<Rightarrow> Inl (InheritedMember entityId)
      | Undefined \<Rightarrow>
     (let entityHdPublicKey =
            (case hdPublicKeys hds of None \<Rightarrow> Undefined | Some pks \<Rightarrow> get pks entityId)
      in if entityHdPublicKey = Undefined then
           Inr (Error (missingHdKeyMessage identifier entityId) True)
         else
     (case hdKeyProperties hdKey of
        None \<Rightarrow> Inl TypeError
      | Some (hdKeyAddressOffset', hdKeyPrivatePath, hdKeyPublicPath) \<Rightarrow>
     (case publicInstancePath defaults hdKeyAddressOffset' hdKeyPrivatePath hdKeyPublicPath
             index of
        None \<Rightarrow> Inl UnsafeNumber
      | Some instancePath \<Rightarrow>
     (case entityHdPublicKey of
        Own hdPublicKey \<Rightarrow>
          (case decodeHdPublicKey H environment hdPublicKey of
             Inl reason \<Rightarrow>
               Inr (Error (undecodableHdKeyMessage identifier entityId reason) False)
           | Inr masterNode \<Rightarrow>
              (case deriveHdPath H environment masterNode instancePath of
                 Inl reason \<Rightarrow>
                   Inr (Error (underivablePathMessage identifier instancePath entityId
                          reason) False)
               | Inr instanceNode \<Rightarrow> Inr (Success (publicKey instanceNode))))
      | Member \<Rightarrow> Inl (InheritedMember entityId)
      | Undefined \<Rightarrow> Inr (Error (missingHdKeyMessage identifier entityId) True)))))))))))"

definition compilerOperationHdKeyPublicKeyCommon ::
  "CompilerDefaults \<Rightarrow> HdKeyCollaborators \<Rightarrow> operation" where
  "compilerOperationHdKeyPublicKeyCommon defaults H =
     attemptCompilerOperations
       [compilerOperationRequires True [''hdKeys''] [] hdKeyPublicKeyPrecomputed]
       (compilerOperationRequires False [''hdKeys'']
          [''entityOwnership'', ''ripemd160'', ''secp256k1'', ''sha256'', ''sha512'',
           ''variables'']
          (hdKeyPublicKeyDerived defaults H))"

section \<open>From a template to a compilation environment\<close>

text \<open>
  An object of the template is the list of its entries in the order \<open>Object.entries\<close>
  enumerates them; the keys of an object are distinct. An entity may have no \<open>variables\<close>
  property.
\<close>

record AuthenticationTemplateScript =
  script :: string

record AuthenticationTemplateEntity =
  entityVariables :: "(string \<times> AuthenticationTemplateVariable) list option"

record AuthenticationTemplate =
  templateEntities :: "(string \<times> AuthenticationTemplateEntity) list"
  templateScripts :: "(string \<times> AuthenticationTemplateScript) list"

text \<open>
  \<open>{ ...all, ...object }\<close> is \<open>all ++ map_of object\<close>: the properties of the second
  object override those of the first, and spreading \<open>undefined\<close> adds nothing.
\<close>

definition spread :: "('k \<rightharpoonup> 'v) \<Rightarrow> ('k \<times> 'v) list option \<Rightarrow> ('k \<rightharpoonup> 'v)" where
  "spread all object = (case object of None \<Rightarrow> all | Some entries \<Rightarrow> all ++ map_of entries)"

definition variableIds :: "AuthenticationTemplateEntity \<Rightarrow> string list" where
  "variableIds entity = (case entityVariables entity of None \<Rightarrow> [] | Some vs \<Rightarrow> map fst vs)"

text \<open>The entries of the variables of an entity; none when it has no \<open>variables\<close>.\<close>

definition declaredVariables ::
  "AuthenticationTemplateEntity \<Rightarrow> (string \<times> AuthenticationTemplateVariable) list" where
  "declaredVariables entity = (case entityVariables entity of None \<Rightarrow> [] | Some vs \<Rightarrow> vs)"

text \<open>
  \<open>authenticationTemplateToCompilationEnvironment\<close>: each \<open>reduce\<close> is a left fold from
  the empty object. The result has the three properties the source returns and no other.
\<close>

definition authenticationTemplateToCompilationEnvironment ::
  "AuthenticationTemplate \<Rightarrow> CompilationEnvironment" where
  "authenticationTemplateToCompilationEnvironment template =
     (let scripts' =
            foldl (\<lambda>all (scriptId, def). all(scriptId \<mapsto> script def)) Map.empty
              (templateScripts template);
          variables' =
            foldl (\<lambda>all entity. spread all (entityVariables entity)) Map.empty
              (map snd (templateEntities template));
          entityOwnership' =
            foldl (\<lambda>all (entityId, entity).
                     all ++ foldl (\<lambda>owned variableId. owned(variableId \<mapsto> entityId))
                              Map.empty (variableIds entity))
              Map.empty (templateEntities template)
      in \<lparr> scripts = scripts', variables = Some variables',
           entityOwnership = Some entityOwnership', ripemd160 = None, secp256k1 = None,
           sha256 = None, sha512 = None \<rparr>)"

text \<open>The entities that declare a variable id, in the order of enumeration.\<close>

definition declaring ::
  "AuthenticationTemplate \<Rightarrow> string \<Rightarrow> (string \<times> AuthenticationTemplateEntity) list" where
  "declaring template variableId =
     filter (\<lambda>(entityId, entity). variableId \<in> set (variableIds entity))
       (templateEntities template)"

section \<open>The prescribed errors of a signature identifier\<close>

text \<open>
  The error section 4.3 prescribes for a signature identifier, \<open>None\<close> for a well-formed
  one: an unknown fourth segment, a missing algorithm, an unrecognized algorithm, in this
  order of precedence.
\<close>

definition prescribedSignatureError :: "string \<Rightarrow> string \<Rightarrow> string option" where
  "prescribedSignatureError identifier operationName =
     (let parts = split identifier CHR ''.''
      in if 3 < length parts then Some (unknownComponentMessage identifier (parts ! 3))
         else if length parts < 3 then Some (invalidSignatureMessage operationName)
         else if parts ! 2 \<notin> set algorithmIdentifiers then
           Some (unknownAlgorithmMessage (parts ! 2))
         else None)"

text \<open>The identifiers of the full signing serializations: \<open>full_\<close> and an algorithm.\<close>

definition fullAlgorithmIdentifiers :: "string list" where
  "fullAlgorithmIdentifiers = map (\<lambda>a. ''full_'' @ a) algorithmIdentifiers"

section \<open>Decimal numerals\<close>

text \<open>
  What the decimal rendering of an integer is, stated on the string and without the
  function that prints: a decimal numeral is a non-empty string of digits with no leading
  zero (but \<open>0\<close> itself); its value is read from the left; a string renders an integer
  when it is the numeral of its magnitude, after a minus sign when the integer is
  negative.
\<close>

definition isDigit :: "char \<Rightarrow> bool" where
  "isDigit c = (c \<in> set ''0123456789'')"

definition digitValue :: "char \<Rightarrow> nat" where
  "digitValue c = of_char c - 48"

definition numeralValue :: "string \<Rightarrow> nat" where
  "numeralValue s = foldl (\<lambda>value c. 10 * value + digitValue c) 0 s"

definition isNumeral :: "string \<Rightarrow> bool" where
  "isNumeral s = (s \<noteq> [] \<and> list_all isDigit s \<and> (hd s = CHR ''0'' \<longrightarrow> s = ''0''))"

definition isDecimal :: "string \<Rightarrow> int \<Rightarrow> bool" where
  "isDecimal s n =
     (if n < 0 then
        (case s of
           [] \<Rightarrow> False
         | c # t \<Rightarrow> c = CHR ''-'' \<and> isNumeral t \<and> int (numeralValue t) = - n)
      else isNumeral s \<and> int (numeralValue s) = n)"

section \<open>Concrete inputs\<close>

text \<open>
  Stand-ins for the capabilities, for evaluating the operations on concrete inputs: a
  ``hash'' that increments every byte (hashing twice differs from hashing once), a
  ``signature'' that is the key followed by the digest, a ``public key'' that is the byte 2
  followed by the private key, and a ``serialization'' that is the covered bytecode
  followed by the signing serialization type.
\<close>

definition exampleHash :: "bytes \<Rightarrow> bytes" where
  "exampleHash input = map (\<lambda>b. b + 1) input"

definition exampleSign :: "bytes \<Rightarrow> bytes \<Rightarrow> bytes" where
  "exampleSign privateKey messageHash = privateKey @ messageHash"

definition exampleCurve :: Secp256k1 where
  "exampleCurve = \<lparr> derivePublicKeyCompressed = (\<lambda>privateKey. 2 # privateKey),
     signMessageHashDER = exampleSign, signMessageHashSchnorr = exampleSign \<rparr>"

definition exampleGenerate :: generateSigningSerialization where
  "exampleGenerate hash signingSerializationType opData =
     coveredBytecode opData @ signingSerializationType"

definition exampleOperationData :: CompilerOperationDataCommon where
  "exampleOperationData = \<lparr> correspondingOutput = None, coveredBytecode = [0x51],
     locktime = 0, outpointIndex = 0, outpointTransactionHash = [], outputValue = 1000,
     sequenceNumber = 0, transactionOutpoints = [], transactionOutputs = [],
     transactionSequenceNumbers = [], version = 2 \<rparr>"

text \<open>
  A stand-in for the script compiler: the script \<open>OP_1\<close> compiles to the byte
  \<open>0x51\<close>, anything else that \<open>environment.scripts[identifier]\<close> gives fails to
  compile, and an identifier for which it gives \<open>undefined\<close> is not resolved.
\<close>

definition exampleResolve ::
  "CompilationData \<Rightarrow> CompilationEnvironment \<Rightarrow> string \<Rightarrow> ScriptResolution" where
  "exampleResolve data environment identifier =
     (case get (scripts environment) identifier of
        Undefined \<Rightarrow> Unresolved
      | Own source \<Rightarrow>
         (if source = ''OP_1'' then Compiled [0x51]
          else CompilationError ''the target script does not compile'')
      | Member \<Rightarrow> CompilationError ''the target script does not compile'')"

text \<open>
  An environment with two scripts and no capability, as the synchronous common compiler
  has it; the same environment with the stand-in capabilities.
\<close>

definition exampleEnvironment :: CompilationEnvironment where
  "exampleEnvironment = \<lparr> scripts = [''lock'' \<mapsto> ''OP_1'', ''broken'' \<mapsto> ''OP_'' ],
     variables = None, entityOwnership = None, ripemd160 = None, secp256k1 = None,
     sha256 = None, sha512 = None \<rparr>"

definition exampleEnvironmentBCH :: CompilationEnvironment where
  "exampleEnvironmentBCH = exampleEnvironment \<lparr> ripemd160 := Some exampleHash,
     secp256k1 := Some exampleCurve, sha256 := Some exampleHash,
     sha512 := Some exampleHash \<rparr>"

text \<open>
  Compilation data: \<open>alice\<close> has a precomputed public key, \<open>bob\<close> a private key,
  \<open>carol\<close> neither; the operation data has no corresponding output.
\<close>

definition exampleData :: CompilationData where
  "exampleData = \<lparr> keys = Some \<lparr> privateKeys = Some [''bob'' \<mapsto> [1, 1]],
       publicKeys = Some [''alice'' \<mapsto> [0x02, 0xaa]] \<rparr>,
     hdKeys = None, addressData = None, walletData = None,
     operationData = Some exampleOperationData \<rparr>"

text \<open>
  Stand-ins for the HD key utilities: every HD public key decodes to a master node, and
  the node derived along a path has the bytes of the path as its public key, so that the
  result of the operation shows the path it derived. The defaults are a zero offset and
  the path \<open>m/i\<close>.
\<close>

definition pathBytes :: "string \<Rightarrow> bytes" where
  "pathBytes path = map (\<lambda>c. of_nat (of_char c)) path"

definition exampleDefaults :: CompilerDefaults where
  "exampleDefaults = \<lparr> hdKeyAddressOffset = 0, hdKeyPrivateDerivationPath = ''m/i'' \<rparr>"

definition exampleCollaborators :: HdKeyCollaborators where
  "exampleCollaborators = \<lparr>
     compilerOperationHelperUnknownEntity =
       (\<lambda>identifier variableId. Error ''unknown entity'' True),
     compilerOperationHelperAddressIndex = (\<lambda>identifier. Error ''no address index'' True),
     compilerOperationHelperDeriveHdPrivateNode =
       (\<lambda>index privateKey entityId environment hdKey identifier.
          Error ''no private derivation'' False),
     decodeHdPublicKey = (\<lambda>environment key. Inr \<lparr> publicKey = [] \<rparr>),
     deriveHdPath = (\<lambda>environment node path. Inr \<lparr> publicKey = pathBytes path \<rparr>) \<rparr>"

text \<open>
  The HD key of property 7: private derivation path \<open>m/0/i\<close>, address offset 2, no
  public derivation path; its owner provides an HD public key only, and the address index
  is 3.
\<close>

definition exampleHdKey :: AuthenticationTemplateVariable where
  "exampleHdKey = \<lparr> variableType = HdKey, addressOffset = Some 2,
     privateDerivationPath = Some ''m/0/i'', publicDerivationPath = None \<rparr>"

definition exampleHdEnvironment :: CompilationEnvironment where
  "exampleHdEnvironment = exampleEnvironmentBCH \<lparr>
     variables := Some [''key'' \<mapsto> exampleHdKey],
     entityOwnership := Some [''key'' \<mapsto> ''owner''] \<rparr>"

definition exampleHdKeys :: HdKeys where
  "exampleHdKeys = \<lparr> addressIndex = Some 3, hdPrivateKeys = None,
     hdPublicKeys = Some [''owner'' \<mapsto> ''xpub''], derivedPublicKeys = None \<rparr>"

definition exampleHdData :: CompilationData where
  "exampleHdData = \<lparr> keys = None, hdKeys = Some exampleHdKeys, addressData = None,
     walletData = None, operationData = None \<rparr>"

text \<open>
  A template of three entities: the first and the last declare the variable \<open>key\<close>, the
  second has no variables.
\<close>

definition exampleKey :: AuthenticationTemplateVariable where
  "exampleKey = \<lparr> variableType = Key, addressOffset = None, privateDerivationPath = None,
     publicDerivationPath = None \<rparr>"

definition exampleTemplate :: AuthenticationTemplate where
  "exampleTemplate = \<lparr>
     templateEntities =
       [(''signer'', \<lparr> entityVariables = Some [(''key'', exampleKey), (''first'', exampleKey)] \<rparr>),
        (''observer'', \<lparr> entityVariables = None \<rparr>),
        (''owner'', \<lparr> entityVariables = Some [(''key'', exampleHdKey)] \<rparr>)],
     templateScripts = [(''lock'', \<lparr> script = ''OP_1'' \<rparr>)] \<rparr>"

section \<open>Signing serialization types: the table\<close>

lemma flag_byte_bitor: "flag_byte (js_bitor a b) = flag_byte a OR flag_byte b"
  unfolding js_bitor_def flag_byte_def
  by (rule bit_word_eqI) (simp add: bit_simps)

lemma Uint8Array_of_flag: "Uint8Array_of n = [flag_byte n]"
  by (simp add: Uint8Array_of_def flag_byte_def)

lemmas algorithm_defs = algorithm_all_outputs_def algorithm_all_outputs_single_input_def
  algorithm_corresponding_output_def algorithm_corresponding_output_single_input_def
  algorithm_no_outputs_def algorithm_no_outputs_single_input_def

lemma getSigningSerializationType_map_of:
  "getSigningSerializationType F (prefix @ a) prefix
     = map_option (\<lambda>b. [b]) (map_of (sighashTable F) a)"
  by (simp add: getSigningSerializationType_def sighashTable_def algorithm_defs
      Uint8Array_of_flag flag_byte_bitor or.assoc)

lemma map_of_sighashTable_None:
  "map_of (sighashTable F) a = None \<longleftrightarrow> a \<notin> set algorithmIdentifiers"
  by (simp add: sighashTable_def algorithmIdentifiers_def algorithm_defs)

lemma sighashTable_dot_free: "map_of (sighashTable F) a = Some t \<Longrightarrow> CHR ''.'' \<notin> set a"
  by (auto simp: sighashTable_def split: if_splits)

text \<open>
  Claim C2. For each of the six algorithm identifiers, \<open>getSigningSerializationType\<close>
  (with its default prefix) returns the single byte that is the bitwise or of the flags the
  table of section 4.4 gives, and it returns \<open>undefined\<close> for every other string.
\<close>

theorem getSigningSerializationType_table:
  "getSigningSerializationType F ''all_outputs'' [] =
     Some [flag_byte (all_outputs F) OR flag_byte (fork_id F)]
   \<and> getSigningSerializationType F ''all_outputs_single_input'' [] =
     Some [flag_byte (all_outputs F) OR flag_byte (single_input F) OR flag_byte (fork_id F)]
   \<and> getSigningSerializationType F ''corresponding_output'' [] =
     Some [flag_byte (corresponding_output F) OR flag_byte (fork_id F)]
   \<and> getSigningSerializationType F ''corresponding_output_single_input'' [] =
     Some [flag_byte (corresponding_output F) OR flag_byte (single_input F)
             OR flag_byte (fork_id F)]
   \<and> getSigningSerializationType F ''no_outputs'' [] =
     Some [flag_byte (no_outputs F) OR flag_byte (fork_id F)]
   \<and> getSigningSerializationType F ''no_outputs_single_input'' [] =
     Some [flag_byte (no_outputs F) OR flag_byte (single_input F) OR flag_byte (fork_id F)]
   \<and> (algorithmIdentifier \<notin> set algorithmIdentifiers \<longrightarrow>
        getSigningSerializationType F algorithmIdentifier [] = None)"
  using getSigningSerializationType_map_of [of F "[]"]
  by (simp add: map_of_sighashTable_None) (simp add: sighashTable_def)

theorem getSigningSerializationType_table_BCH:
  "getSigningSerializationType flagsBCH ''all_outputs'' [] = Some [0x41]
   \<and> getSigningSerializationType flagsBCH ''all_outputs_single_input'' [] = Some [0xC1]
   \<and> getSigningSerializationType flagsBCH ''corresponding_output'' [] = Some [0x43]
   \<and> getSigningSerializationType flagsBCH ''corresponding_output_single_input'' [] =
        Some [0xC3]
   \<and> getSigningSerializationType flagsBCH ''no_outputs'' [] = Some [0x42]
   \<and> getSigningSerializationType flagsBCH ''no_outputs_single_input'' [] = Some [0xC2]
   \<and> getSigningSerializationType flagsBCH ''unknown_algo'' [] = None"
  using getSigningSerializationType_table [of flagsBCH "''unknown_algo''"]
  by (simp add: flagsBCH_def flag_byte_def algorithmIdentifiers_def algorithm_defs)

section \<open>Splitting identifiers\<close>

lemma split_acc_segment:
  "c \<notin> set a \<Longrightarrow> split_acc c acc (a @ c # rest) = (rev acc @ a) # split_acc c [] rest"
  by (induction a arbitrary: acc) auto

lemma split_acc_last: "c \<notin> set a \<Longrightarrow> split_acc c acc a = [rev acc @ a]"
  by (induction a arbitrary: acc) auto

lemma split_two:
  "CHR ''.'' \<notin> set a \<Longrightarrow> CHR ''.'' \<notin> set b \<Longrightarrow> split (a @ ''.'' @ b) CHR ''.'' = [a, b]"
  using split_acc_segment [of "CHR ''.''" a "[]"] split_acc_last [of "CHR ''.''" b "[]"]
  by (simp add: split_def)

lemma split_three:
  "CHR ''.'' \<notin> set a \<Longrightarrow> CHR ''.'' \<notin> set b \<Longrightarrow> CHR ''.'' \<notin> set d \<Longrightarrow>
   split (a @ ''.'' @ b @ ''.'' @ d) CHR ''.'' = [a, b, d]"
  using split_acc_segment [of "CHR ''.''" a "[]"] split_acc_segment [of "CHR ''.''" b "[]"]
    split_acc_last [of "CHR ''.''" d "[]"]
  by (simp add: split_def)

section \<open>BCH signatures: results\<close>

lemma computeSignature_cases:
  "compilerOperationHelperComputeSignatureBCH F generate identifier opData operationName
     privateKey hash sign =
   (case element (split identifier CHR ''.'') 3 of
      Some u \<Rightarrow> Error (unknownComponentMessage identifier u) False
    | None \<Rightarrow>
       (case element (split identifier CHR ''.'') 2 of
          None \<Rightarrow> Error (invalidSignatureMessage operationName) False
        | Some a \<Rightarrow>
           (case map_of (sighashTable F) a of
              None \<Rightarrow> Error (unknownAlgorithmMessage a) False
            | Some t \<Rightarrow>
               Success (sign privateKey (hash (hash (generate hash [t] opData))) @ [t]))))"
  using getSigningSerializationType_map_of [of F "[]"]
  by (simp add: compilerOperationHelperComputeSignatureBCH_def Let_def split: option.splits)

text \<open>
  Claim C1. For an identifier of three segments whose third is one of the six algorithm
  identifiers, with SIGHASH byte \<open>sighash\<close>, and for every private key and operation data,
  \<open>compilerOperationHelperComputeSignatureBCH\<close> returns a success whose bytecode is the
  signature of the double hash of the signing serialization generated with that byte,
  followed by that one byte; the final byte of the bytecode is the SIGHASH byte.
\<close>

theorem computeSignature_bytecode:
  assumes "CHR ''.'' \<notin> set variableId" and "CHR ''.'' \<notin> set operation"
    and "map_of (sighashTable F) algorithm = Some sighash"
  shows "compilerOperationHelperComputeSignatureBCH F generate
           (variableId @ ''.'' @ operation @ ''.'' @ algorithm) opData operationName
           privateKey hash sign
         = Success (sign privateKey (hash (hash (generate hash [sighash] opData))) @ [sighash])
       \<and> finalByte (compilerOperationHelperComputeSignatureBCH F generate
           (variableId @ ''.'' @ operation @ ''.'' @ algorithm) opData operationName
           privateKey hash sign) = Some sighash"
proof -
  have "split (variableId @ ''.'' @ operation @ ''.'' @ algorithm) CHR ''.''
          = [variableId, operation, algorithm]"
    using assms sighashTable_dot_free by (intro split_three) auto
  then show ?thesis
    using assms(3) by (simp add: computeSignature_cases element_def finalByte_def)
qed

theorem computeSignature_bytecode_witness:
  "CHR ''.'' \<notin> set ''alice'' \<and> CHR ''.'' \<notin> set ''signature''
   \<and> map_of (sighashTable flagsBCH) ''all_outputs'' = Some 0x41
   \<and> compilerOperationHelperComputeSignatureBCH flagsBCH exampleGenerate
        ''alice.signature.all_outputs'' exampleOperationData ''signature'' [1, 1]
        exampleHash exampleSign = Success [1, 1, 0x53, 0x43, 0x41]
   \<and> finalByte (compilerOperationHelperComputeSignatureBCH flagsBCH exampleGenerate
        ''alice.signature.all_outputs'' exampleOperationData ''signature'' [1, 1]
        exampleHash exampleSign) = Some 0x41"
proof -
  have t: "map_of (sighashTable flagsBCH) ''all_outputs'' = Some 0x41"
    by (simp add: sighashTable_def flagsBCH_def flag_byte_def)
  show ?thesis
    using computeSignature_bytecode [of "''alice''" "''signature''" flagsBCH
        "''all_outputs''" "0x41", OF _ _ t, of exampleGenerate exampleOperationData
        "''signature''" "[1, 1]" exampleHash exampleSign] t
    by (simp add: exampleGenerate_def exampleOperationData_def exampleHash_def
        exampleSign_def finalByte_def)
qed

lemma prescribed_None_table:
  "prescribedSignatureError identifier operationName = None \<Longrightarrow>
   \<exists>a t. element (split identifier CHR ''.'') 3 = None
     \<and> element (split identifier CHR ''.'') 2 = Some a \<and> map_of (sighashTable F) a = Some t"
  using map_of_sighashTable_None [of F "split identifier CHR ''.'' ! 2"]
  by (auto simp: prescribedSignatureError_def Let_def element_def split: if_splits)

text \<open>
  Claim C3, as the code has it. \<open>compilerOperationHelperComputeSignatureBCH\<close> returns a
  non-recoverable error exactly when the identifier is malformed: for a fourth segment,
  the error naming the unknown component; otherwise, for a missing algorithm segment, the
  error that gives the form \<open>[variable_id].<operationName>.[signing_serialization_type]\<close>
  with the name of the operation; otherwise, for an unrecognized algorithm, the error
  naming the algorithm. The error depends on the identifier and the name of the operation
  only: not on the private key, the operation data or the capabilities. Every other
  identifier yields a success.
\<close>

theorem computeSignature_errors:
  "(case prescribedSignatureError identifier operationName of
      Some message \<Rightarrow>
        compilerOperationHelperComputeSignatureBCH F generate identifier opData
          operationName privateKey hash sign = Error message False
    | None \<Rightarrow>
        (\<exists>bytecode. compilerOperationHelperComputeSignatureBCH F generate identifier opData
          operationName privateKey hash sign = Success bytecode))"
proof (cases "prescribedSignatureError identifier operationName")
  case None
  from prescribed_None_table [OF None, of F] show ?thesis
    by (auto simp: None computeSignature_cases)
next
  case (Some message)
  then show ?thesis
    using map_of_sighashTable_None [of F "split identifier CHR ''.'' ! 2"]
    by (auto simp: computeSignature_cases prescribedSignatureError_def Let_def element_def
        split: if_splits)
qed

text \<open>The identifier of scenario S6, and an identifier with a fourth segment.\<close>

theorem computeSignature_errors_witness:
  "compilerOperationHelperComputeSignatureBCH flagsBCH exampleGenerate
     ''alice.signature.unknown_algo'' exampleOperationData ''signature'' [1, 1] exampleHash
     exampleSign
   = Error (''Unknown signing serialization algorithm, '' @ [CHR 0x22] @ ''unknown_algo''
       @ [CHR 0x22] @ ''.'') False"
  using computeSignature_errors [of flagsBCH exampleGenerate
      "''alice.signature.unknown_algo''" exampleOperationData "''signature''" "[1, 1]"
      exampleHash exampleSign]
  by (simp add: prescribedSignatureError_def split_def unknownAlgorithmMessage_def
      dquote_def algorithmIdentifiers_def algorithm_defs)

text \<open>
  The claim as stated gives one message for a missing algorithm, with the operation name
  \<open>signature\<close>. For the Schnorr operation the message names \<open>schnorr_signature\<close>.
\<close>

theorem computeSignature_schnorr_message:
  "compilerOperationHelperComputeSignatureBCH flagsBCH exampleGenerate
     ''alice.schnorr_signature'' exampleOperationData ''schnorr_signature'' [1, 1]
     exampleHash exampleSign
   = Error (''Invalid signature identifier. Signatures must be of the form: '' @ [CHR 0x22]
       @ ''[variable_id].schnorr_signature.[signing_serialization_type]'' @ [CHR 0x22]
       @ ''.'') False
   \<and> compilerOperationHelperComputeSignatureBCH flagsBCH exampleGenerate
     ''alice.schnorr_signature'' exampleOperationData ''schnorr_signature'' [1, 1]
     exampleHash exampleSign
   \<noteq> Error (''Invalid signature identifier. Signatures must be of the form: '' @ [CHR 0x22]
       @ ''[variable_id].signature.[signing_serialization_type]'' @ [CHR 0x22]
       @ ''.'') False"
  by (simp add: computeSignature_cases split_def element_def invalidSignatureMessage_def
      dquote_def)

section \<open>Reading properties\<close>

lemma get_Own: "object key = Some v \<Longrightarrow> get object key = Own v"
  by (simp add: get_def)


section \<open>BCH data signatures: results\<close>

lemma computeDataSignature_three:
  assumes "split identifier CHR ''.'' = [variableId, operation, target]"
  shows "compilerOperationHelperComputeDataSignatureBCH resolveScriptIdentifier data
           environment identifier operationName privateKey hash sign =
         (if get (scripts environment) target = Undefined then
            Error (unknownTargetMessage target) False
          else case resolveScriptIdentifier data environment target of
            Unresolved \<Rightarrow> Error (unknownTargetMessage target) False
          | CompilationError message \<Rightarrow> Error message False
          | Compiled bytecode \<Rightarrow> Success (sign privateKey (hash bytecode)))"
  using assms
  by (simp add: compilerOperationHelperComputeDataSignatureBCH_def element_def Let_def
      split: ScriptResolution.splits)

text \<open>
  Claim C5. For an identifier of three segments whose third names a script of the
  environment that compiles, \<open>compilerOperationHelperComputeDataSignatureBCH\<close> returns
  the signature, under the private key, of the single hash of the compiled bytecode: the
  bytecode is hashed once, and nothing is appended to the signature. The sign function is
  any of the two methods, so the Schnorr variant is covered.
\<close>

theorem computeDataSignature_bytecode:
  assumes "CHR ''.'' \<notin> set variableId" and "CHR ''.'' \<notin> set operation"
    and "CHR ''.'' \<notin> set target"
    and "scripts environment target = Some source"
    and "resolveScriptIdentifier data environment target = Compiled bytecode"
  shows "compilerOperationHelperComputeDataSignatureBCH resolveScriptIdentifier data
           environment (variableId @ ''.'' @ operation @ ''.'' @ target) operationName
           privateKey hash sign
         = Success (sign privateKey (hash bytecode))"
  using assms computeDataSignature_three [OF split_three [of variableId operation target]]
    get_Own [of "scripts environment" target source]
  by simp

theorem computeDataSignature_bytecode_witness:
  "CHR ''.'' \<notin> set ''bob'' \<and> CHR ''.'' \<notin> set ''data_signature'' \<and> CHR ''.'' \<notin> set ''lock''
   \<and> scripts exampleEnvironmentBCH ''lock'' = Some ''OP_1''
   \<and> exampleResolve exampleData exampleEnvironmentBCH ''lock'' = Compiled [0x51]
   \<and> compilerOperationHelperComputeDataSignatureBCH exampleResolve exampleData
        exampleEnvironmentBCH ''bob.data_signature.lock'' ''data_signature'' [1, 1]
        exampleHash exampleSign = Success [1, 1, 0x52]"
proof -
  have s: "scripts exampleEnvironmentBCH ''lock'' = Some ''OP_1''"
    by (simp add: exampleEnvironmentBCH_def exampleEnvironment_def)
  have r: "exampleResolve exampleData exampleEnvironmentBCH ''lock'' = Compiled [0x51]"
    by (simp add: exampleResolve_def
        get_Own [of "scripts exampleEnvironmentBCH" "''lock''" "''OP_1''"] s)
  show ?thesis
    using computeDataSignature_bytecode [of "''bob''" "''data_signature''" "''lock''"
        exampleEnvironmentBCH "''OP_1''" exampleResolve exampleData "[0x51]"
        "''data_signature''" "[1, 1]" exampleHash exampleSign] s r
    by (simp add: exampleHash_def exampleSign_def)
qed




section \<open>The protocol: prerequisites\<close>

lemma requires_present:
  assumes "\<forall>p \<in> set dataProperties. dataProperty data p"
    and "\<forall>p \<in> set environmentProperties. environmentProperty environment p"
  shows "compilerOperationRequires canBeSkipped dataProperties environmentProperties
           operation identifier data environment = operation identifier data environment"
proof -
  have "filter (\<lambda>p. \<not> dataProperty data p) dataProperties = []"
    and "filter (\<lambda>p. \<not> environmentProperty environment p) environmentProperties = []"
    using assms by (simp_all add: filter_empty_conv)
  then show ?thesis by (simp add: compilerOperationRequires_def)
qed

lemma requires_missing:
  assumes "(\<exists>p \<in> set dataProperties. \<not> dataProperty data p)
           \<or> (\<exists>p \<in> set environmentProperties. \<not> environmentProperty environment p)"
  shows "\<exists>p. compilerOperationRequires canBeSkipped dataProperties environmentProperties
           operation identifier data environment
         = (if canBeSkipped then Inr Skip else Inr (Error (missingPropertyMessage p) False))"
proof -
  have "filter (\<lambda>p. \<not> dataProperty data p) dataProperties
          @ filter (\<lambda>p. \<not> environmentProperty environment p) environmentProperties \<noteq> []"
    using assms by (auto simp: filter_empty_conv)
  then obtain p ps where
    "filter (\<lambda>p. \<not> dataProperty data p) dataProperties
       @ filter (\<lambda>p. \<not> environmentProperty environment p) environmentProperties = p # ps"
    by (cases "filter (\<lambda>p. \<not> dataProperty data p) dataProperties
       @ filter (\<lambda>p. \<not> environmentProperty environment p) environmentProperties") auto
  then show ?thesis by (auto simp: compilerOperationRequires_def)
qed

lemma requires_fatal:
  "isFatalError (operation identifier data environment) \<Longrightarrow>
   isFatalError (compilerOperationRequires False dataProperties environmentProperties
     operation identifier data environment)"
  by (cases "filter (\<lambda>p. \<not> dataProperty data p) dataProperties
       @ filter (\<lambda>p. \<not> environmentProperty environment p) environmentProperties")
    (simp_all add: compilerOperationRequires_def isFatalError_def)

section \<open>The full signing serialization: results\<close>

lemma full_unrecognized:
  "getSigningSerializationType F a ''full_'' = None \<longleftrightarrow> a \<notin> set fullAlgorithmIdentifiers"
  by (simp add: getSigningSerializationType_def fullAlgorithmIdentifiers_def
      algorithmIdentifiers_def algorithm_defs)

lemma full_malformed_fatal:
  assumes "length (split identifier CHR ''.'') \<noteq> 2
           \<or> split identifier CHR ''.'' ! 1 \<notin> set fullAlgorithmIdentifiers"
  shows "isFatalError (signingSerializationFullOperation F generate identifier data environment)"
proof -
  consider "length (split identifier CHR ''.'') < 2" | "2 < length (split identifier CHR ''.'')"
    | "length (split identifier CHR ''.'') = 2"
      "getSigningSerializationType F (split identifier CHR ''.'' ! 1) ''full_'' = None"
    using assms full_unrecognized by force
  then show ?thesis
    by cases (simp_all add: signingSerializationFullOperation_def element_def Let_def
        isFatalError_def)
qed

lemma full_recognized:
  assumes "split identifier CHR ''.'' = [component, ''full_'' @ algorithm]"
    and "map_of (sighashTable F) algorithm = Some sighash"
    and "operationData data = Some opData" and "sha256 environment = Some hash"
  shows "signingSerializationFullOperation F generate identifier data environment
         = Inr (Success (generate hash [sighash] opData))"
  using assms getSigningSerializationType_map_of [of F "''full_''" algorithm]
  by (simp add: signingSerializationFullOperation_def element_def Let_def)

text \<open>
  Claim C7. For an identifier of two segments whose second is \<open>full_\<close> followed by one
  of the six algorithm identifiers, with operation data and \<open>sha256\<close> present, the
  operation returns a success whose bytecode is the signing serialization generated with
  the SIGHASH byte of the algorithm, as it is: not hashed and not signed. An identifier
  with a missing segment, an extra segment or an unrecognized algorithm yields a
  non-recoverable error, whatever the data and the environment.
\<close>

theorem signingSerializationFull_raw:
  assumes "CHR ''.'' \<notin> set component"
    and "map_of (sighashTable F) algorithm = Some sighash"
    and "operationData data = Some opData" and "sha256 environment = Some hash"
  shows "compilerOperationSigningSerializationFullBCH F generate
           (component @ ''.'' @ ''full_'' @ algorithm) data environment
         = Inr (Success (generate hash [sighash] opData))
       \<and> (length (split identifier CHR ''.'') \<noteq> 2
            \<or> split identifier CHR ''.'' ! 1 \<notin> set fullAlgorithmIdentifiers \<longrightarrow>
          isFatalError (compilerOperationSigningSerializationFullBCH F generate identifier
            data' environment'))"
proof -
  have "CHR ''.'' \<notin> set (''full_'' @ algorithm)"
    using sighashTable_dot_free [OF assms(2)] by simp
  then have parts: "split (component @ ''.'' @ ''full_'' @ algorithm) CHR ''.''
      = [component, ''full_'' @ algorithm]"
    using assms(1) by (rule split_two [rotated])
  have present: "\<forall>p \<in> set [''operationData'']. dataProperty data p"
    "\<forall>p \<in> set [''sha256'']. environmentProperty environment p"
    using assms(3,4) by (simp_all add: dataProperty_def environmentProperty_def)
  have "compilerOperationSigningSerializationFullBCH F generate
           (component @ ''.'' @ ''full_'' @ algorithm) data environment
         = Inr (Success (generate hash [sighash] opData))"
    unfolding compilerOperationSigningSerializationFullBCH_def
      requires_present [OF present]
    by (rule full_recognized [OF parts assms(2-4)])
  moreover have "isFatalError (compilerOperationSigningSerializationFullBCH F generate
      identifier data' environment')"
    if "length (split identifier CHR ''.'') \<noteq> 2
        \<or> split identifier CHR ''.'' ! 1 \<notin> set fullAlgorithmIdentifiers"
    unfolding compilerOperationSigningSerializationFullBCH_def
    by (rule requires_fatal) (rule full_malformed_fatal [OF that])
  ultimately show ?thesis by blast
qed

theorem signingSerializationFull_raw_witness:
  "CHR ''.'' \<notin> set ''signing_serialization''
   \<and> map_of (sighashTable flagsBCH) ''no_outputs'' = Some 0x42
   \<and> operationData exampleData = Some exampleOperationData
   \<and> sha256 exampleEnvironmentBCH = Some exampleHash
   \<and> compilerOperationSigningSerializationFullBCH flagsBCH exampleGenerate
        ''signing_serialization.full_no_outputs'' exampleData exampleEnvironmentBCH
      = Inr (Success [0x51, 0x42])
   \<and> isFatalError (compilerOperationSigningSerializationFullBCH flagsBCH exampleGenerate
        ''signing_serialization.full_unknown'' exampleData exampleEnvironmentBCH)"
proof -
  have t: "map_of (sighashTable flagsBCH) ''no_outputs'' = Some 0x42"
    by (simp add: sighashTable_def flagsBCH_def flag_byte_def)
  have d: "operationData exampleData = Some exampleOperationData"
    by (simp add: exampleData_def)
  have e: "sha256 exampleEnvironmentBCH = Some exampleHash"
    by (simp add: exampleEnvironmentBCH_def)
  show ?thesis
    using signingSerializationFull_raw [of "''signing_serialization''" flagsBCH "''no_outputs''" "0x42" exampleData
        exampleOperationData exampleEnvironmentBCH exampleHash exampleGenerate
        "''signing_serialization.full_unknown''" exampleData exampleEnvironmentBCH] t d e
    by (simp add: split_def fullAlgorithmIdentifiers_def algorithmIdentifiers_def
        algorithm_defs exampleGenerate_def exampleOperationData_def)
qed

section \<open>The corresponding output: results\<close>

text \<open>
  Claim C9, as the code has it. When the operation data is present and has no
  corresponding output, \<open>signing_serialization.corresponding_output\<close> returns a success
  with the empty byte sequence, and \<open>signing_serialization.corresponding_output_hash\<close>
  returns a success with the empty byte sequence when the environment has \<open>sha256\<close>;
  without \<open>sha256\<close> the hash operation, which requires it, returns the non-recoverable
  error of the missing property. The hash operation double-hashes the corresponding output
  when it is present.
\<close>

theorem correspondingOutput_absent:
  assumes "operationData data = Some opData"
  shows "(correspondingOutput opData = None \<longrightarrow>
            compilerOperationSigningSerializationCorrespondingOutput identifier data
              environment = Inr (Success [])
          \<and> (sha256 environment \<noteq> None \<longrightarrow>
               compilerOperationSigningSerializationCorrespondingOutputHash identifier data
                 environment = Inr (Success []))
          \<and> (sha256 environment = None \<longrightarrow>
               compilerOperationSigningSerializationCorrespondingOutputHash identifier data
                 environment = Inr (Error (missingPropertyMessage ''sha256'') False)))
       \<and> (correspondingOutput opData = Some output \<and> sha256 environment = Some hash \<longrightarrow>
            compilerOperationSigningSerializationCorrespondingOutputHash identifier data
              environment = Inr (Success (hash (hash output))))"
  using assms
  by (auto simp: compilerOperationSigningSerializationCorrespondingOutput_def
      compilerOperationSigningSerializationCorrespondingOutputHash_def
      compilerOperationRequires_def dataProperty_def environmentProperty_def
      correspondingOutputOperation_def correspondingOutputHashOperation_def)

text \<open>
  The claim as stated has both operations succeed whenever the operation data is present
  without a corresponding output. In the environment without capabilities the hash
  operation returns an error.
\<close>

theorem correspondingOutputHash_without_sha256:
  "operationData exampleData = Some exampleOperationData
   \<and> correspondingOutput exampleOperationData = None
   \<and> compilerOperationSigningSerializationCorrespondingOutputHash
        ''signing_serialization.corresponding_output_hash'' exampleData exampleEnvironment
      = Inr (Error ''missing property: sha256'' False)"
  by (simp add: compilerOperationSigningSerializationCorrespondingOutputHash_def
      compilerOperationRequires_def dataProperty_def environmentProperty_def
      exampleData_def exampleOperationData_def exampleEnvironment_def
      missingPropertyMessage_def)

theorem correspondingOutput_absent_witness:
  "operationData exampleData = Some exampleOperationData
   \<and> correspondingOutput exampleOperationData = None
   \<and> compilerOperationSigningSerializationCorrespondingOutput
        ''signing_serialization.corresponding_output'' exampleData exampleEnvironment
      = Inr (Success [])
   \<and> sha256 exampleEnvironmentBCH \<noteq> None
   \<and> compilerOperationSigningSerializationCorrespondingOutputHash
        ''signing_serialization.corresponding_output_hash'' exampleData
        exampleEnvironmentBCH = Inr (Success [])"
proof -
  have d: "operationData exampleData = Some exampleOperationData"
    by (simp add: exampleData_def)
  have c: "correspondingOutput exampleOperationData = None"
    by (simp add: exampleOperationData_def)
  have e: "sha256 exampleEnvironmentBCH \<noteq> None"
    by (simp add: exampleEnvironmentBCH_def)
  show ?thesis
    using correspondingOutput_absent [OF d, of "''signing_serialization.corresponding_output''" exampleEnvironment]
      correspondingOutput_absent [OF d, of "''signing_serialization.corresponding_output_hash''"
        exampleEnvironmentBCH] d c e
    by simp
qed

section \<open>The public key of a \<open>Key\<close>: results\<close>

lemma variableIdOf_first:
  "CHR ''.'' \<notin> set variableId \<Longrightarrow> variableIdOf (variableId @ CHR ''.'' # rest) = variableId"
  by (simp add: variableIdOf_def split_def split_acc_segment)

lemma keyPublicKey_first:
  "compilerOperationRequires True [''keys''] [] keyPublicKeyPrecomputed identifier data
     environment =
   (case publicKeyProperty data (variableIdOf identifier) of
      Own precomputed \<Rightarrow> Inr (Success precomputed)
    | Member \<Rightarrow> Inr (SuccessMember (variableIdOf identifier))
    | Undefined \<Rightarrow> Inr Skip)"
  by (cases "keys data"; cases "publicKeys (the (keys data))")
    (simp_all add: compilerOperationRequires_def dataProperty_def
      keyPublicKeyPrecomputed_def publicKeyProperty_def Let_def)

lemma keyPublicKey_final:
  "compilerOperationRequires False [''keys''] [''secp256k1''] keyPublicKeyDerived identifier
     data environment =
   (if keys data = None then Inr (Error (missingPropertyMessage ''keys'') False)
    else case secp256k1 environment of
      None \<Rightarrow> Inr (Error (missingPropertyMessage ''secp256k1'') False)
    | Some curve \<Rightarrow>
       (case privateKeyProperty data (variableIdOf identifier) of
          Own privateKey \<Rightarrow> Inr (Success (derivePublicKeyCompressed curve privateKey))
        | Member \<Rightarrow> Inl (InheritedMember (variableIdOf identifier))
        | Undefined \<Rightarrow>
           Inr (Error (missingKeysMessage identifier (variableIdOf identifier)) True)))"
  by (cases "keys data"; cases "secp256k1 environment";
      cases "privateKeys (the (keys data))")
    (simp_all add: compilerOperationRequires_def dataProperty_def environmentProperty_def
      keyPublicKeyDerived_def privateKeyProperty_def Let_def split: property.splits)

lemma keyPublicKey_cases:
  "compilerOperationKeyPublicKeyCommon identifier data environment =
   (case publicKeyProperty data (variableIdOf identifier) of
      Own precomputed \<Rightarrow> Inr (Success precomputed)
    | Member \<Rightarrow> Inr (SuccessMember (variableIdOf identifier))
    | Undefined \<Rightarrow>
       (if keys data = None then Inr (Error (missingPropertyMessage ''keys'') False)
        else case secp256k1 environment of
          None \<Rightarrow> Inr (Error (missingPropertyMessage ''secp256k1'') False)
        | Some curve \<Rightarrow>
           (case privateKeyProperty data (variableIdOf identifier) of
              Own privateKey \<Rightarrow> Inr (Success (derivePublicKeyCompressed curve privateKey))
            | Member \<Rightarrow> Inl (InheritedMember (variableIdOf identifier))
            | Undefined \<Rightarrow>
               Inr (Error (missingKeysMessage identifier (variableIdOf identifier)) True))))"
  unfolding compilerOperationKeyPublicKeyCommon_def attemptCompilerOperations_def
  by (simp add: keyPublicKey_first keyPublicKey_final
      split: property.splits option.splits)

text \<open>
  Claim C4, as the code has it. For an identifier \<open><variableId>.public_key\<close>, with
  \<open>keys.publicKeys[variableId]\<close> and \<open>keys.privateKeys[variableId]\<close> as the source
  reads them: if the data has a public key of its own for the variable, the result is a
  success with exactly these bytes, whatever the environment and the private keys;
  otherwise, if the public key is \<open>undefined\<close>, the data has a private key of its own for
  the variable and the environment has \<open>secp256k1\<close>, the result is a success with the
  compressed public key derived from the private key; if both are \<open>undefined\<close>, the
  result is the recoverable error of the missing keys when the data has \<open>keys\<close> and the
  environment has \<open>secp256k1\<close>. Without \<open>keys\<close>, or without \<open>secp256k1\<close> and a public
  key, the result is the non-recoverable error of the missing property, which names the
  one that is absent.
\<close>

theorem keyPublicKey_resolution:
  assumes "CHR ''.'' \<notin> set variableId"
  shows "(publicKeyProperty data variableId = Own precomputed \<longrightarrow>
            compilerOperationKeyPublicKeyCommon (variableId @ ''.public_key'') data environment
            = Inr (Success precomputed))
       \<and> (publicKeyProperty data variableId = Undefined
            \<and> privateKeyProperty data variableId = Own privateKey
            \<and> secp256k1 environment = Some curve \<longrightarrow>
            compilerOperationKeyPublicKeyCommon (variableId @ ''.public_key'') data environment
            = Inr (Success (derivePublicKeyCompressed curve privateKey)))
       \<and> (publicKeyProperty data variableId = Undefined
            \<and> privateKeyProperty data variableId = Undefined
            \<and> keys data \<noteq> None \<and> secp256k1 environment \<noteq> None \<longrightarrow>
            compilerOperationKeyPublicKeyCommon (variableId @ ''.public_key'') data environment
            = Inr (Error (missingKeysMessage (variableId @ ''.public_key'') variableId) True))
       \<and> (keys data = None \<and> secp256k1 environment \<noteq> None \<longrightarrow>
            compilerOperationKeyPublicKeyCommon (variableId @ ''.public_key'') data environment
            = Inr (Error (missingPropertyMessage ''keys'') False))
       \<and> (publicKeyProperty data variableId = Undefined
            \<and> keys data \<noteq> None \<and> secp256k1 environment = None \<longrightarrow>
            compilerOperationKeyPublicKeyCommon (variableId @ ''.public_key'') data environment
            = Inr (Error (missingPropertyMessage ''secp256k1'') False))
       \<and> (keys data = None \<and> secp256k1 environment = None \<longrightarrow>
            compilerOperationKeyPublicKeyCommon (variableId @ ''.public_key'') data environment
              = Inr (Error (missingPropertyMessage ''keys'') False)
            \<or> compilerOperationKeyPublicKeyCommon (variableId @ ''.public_key'') data
                 environment
              = Inr (Error (missingPropertyMessage ''secp256k1'') False))"
proof -
  have v: "variableIdOf (variableId @ ''.public_key'') = variableId"
    using variableIdOf_first [OF assms] by simp
  have absent: "publicKeyProperty data variableId = Undefined"
    "privateKeyProperty data variableId = Undefined" if "keys data = None"
    using that by (simp_all add: publicKeyProperty_def privateKeyProperty_def)
  show ?thesis
    using absent by (auto simp: keyPublicKey_cases v split: option.splits)
qed

text \<open>
  The claim as stated has a recoverable error whenever neither key is provided. In the
  environment without \<open>secp256k1\<close> (scenario S2) the error is not recoverable. And for
  the variable id \<open>constructor\<close>, for which the data provides no key,
  \<open>keys.publicKeys[variableId]\<close> is the member of \<open>Object.prototype\<close>: the result is a
  success, with this member as its bytecode.
\<close>

theorem keyPublicKey_not_recoverable:
  "providedPublicKey exampleData ''carol'' = None
   \<and> providedPrivateKey exampleData ''carol'' = None
   \<and> compilerOperationKeyPublicKeyCommon ''carol.public_key'' exampleData exampleEnvironment
      = Inr (Error ''missing property: secp256k1'' False)
   \<and> \<not> isRecoverableError
        (compilerOperationKeyPublicKeyCommon ''carol.public_key'' exampleData
           exampleEnvironment)
   \<and> providedPublicKey exampleData ''constructor'' = None
   \<and> providedPrivateKey exampleData ''constructor'' = None
   \<and> compilerOperationKeyPublicKeyCommon ''constructor.public_key'' exampleData
        exampleEnvironmentBCH
      = Inr (SuccessMember ''constructor'')
   \<and> \<not> isRecoverableError
        (compilerOperationKeyPublicKeyCommon ''constructor.public_key'' exampleData
           exampleEnvironmentBCH)"
  by (simp add: keyPublicKey_cases variableIdOf_def split_def providedPublicKey_def
      providedPrivateKey_def publicKeyProperty_def privateKeyProperty_def get_def
      objectPrototype_def exampleData_def exampleEnvironment_def exampleEnvironmentBCH_def
      missingPropertyMessage_def isRecoverableError_def)

theorem keyPublicKey_resolution_witness:
  "CHR ''.'' \<notin> set ''alice'' \<and> CHR ''.'' \<notin> set ''bob'' \<and> CHR ''.'' \<notin> set ''carol''
   \<and> publicKeyProperty exampleData ''alice'' = Own [0x02, 0xaa]
   \<and> compilerOperationKeyPublicKeyCommon ''alice.public_key'' exampleData exampleEnvironment
      = Inr (Success [0x02, 0xaa])
   \<and> publicKeyProperty exampleData ''bob'' = Undefined
   \<and> privateKeyProperty exampleData ''bob'' = Own [1, 1]
   \<and> secp256k1 exampleEnvironmentBCH = Some exampleCurve
   \<and> compilerOperationKeyPublicKeyCommon ''bob.public_key'' exampleData exampleEnvironmentBCH
      = Inr (Success [2, 1, 1])
   \<and> publicKeyProperty exampleData ''carol'' = Undefined
   \<and> privateKeyProperty exampleData ''carol'' = Undefined
   \<and> keys exampleData \<noteq> None \<and> secp256k1 exampleEnvironmentBCH \<noteq> None
   \<and> isRecoverableError
        (compilerOperationKeyPublicKeyCommon ''carol.public_key'' exampleData
           exampleEnvironmentBCH)
   \<and> secp256k1 exampleEnvironment = None
   \<and> compilerOperationKeyPublicKeyCommon ''carol.public_key'' exampleData exampleEnvironment
      = Inr (Error ''missing property: secp256k1'' False)
   \<and> keys exampleHdData = None
   \<and> compilerOperationKeyPublicKeyCommon ''carol.public_key'' exampleHdData
        exampleEnvironmentBCH
      = Inr (Error ''missing property: keys'' False)"
proof -
  have k: "publicKeyProperty exampleData ''alice'' = Own [0x02, 0xaa]"
    "publicKeyProperty exampleData ''bob'' = Undefined"
    "privateKeyProperty exampleData ''bob'' = Own [1, 1]"
    "publicKeyProperty exampleData ''carol'' = Undefined"
    "privateKeyProperty exampleData ''carol'' = Undefined"
    "keys exampleData \<noteq> None" "keys exampleHdData = None"
    by (simp_all add: publicKeyProperty_def privateKeyProperty_def get_def
        objectPrototype_def exampleData_def exampleHdData_def)
  have e: "secp256k1 exampleEnvironmentBCH = Some exampleCurve"
    "secp256k1 exampleEnvironment = None"
    by (simp_all add: exampleEnvironmentBCH_def exampleEnvironment_def)
  show ?thesis
    using keyPublicKey_resolution [of "''alice''" exampleData "[0x02, 0xaa]"
        exampleEnvironment]
      keyPublicKey_resolution [of "''bob''" exampleData _ exampleEnvironmentBCH "[1, 1]"
        exampleCurve]
      keyPublicKey_resolution [of "''carol''" exampleData _ exampleEnvironmentBCH]
      keyPublicKey_resolution [of "''carol''" exampleData _ exampleEnvironment]
      keyPublicKey_resolution [of "''carol''" exampleHdData _ exampleEnvironmentBCH] k e
    by (simp add: exampleCurve_def isRecoverableError_def missingPropertyMessage_def)
qed

section \<open>Decimal numerals: what \<open>toString\<close> prints\<close>

lemma digit_cases:
  assumes "d < 10"
  shows "d = 0 \<or> d = 1 \<or> d = 2 \<or> d = 3 \<or> d = 4 \<or> d = 5 \<or> d = 6 \<or> d = 7 \<or> d = 8
         \<or> d = (9::nat)"
  using assms by arith

lemma digit_props:
  assumes "d < 10"
  shows "isDigit (digit d)" and "digitValue (digit d) = d"
    and "digit d = CHR ''0'' \<longleftrightarrow> d = 0"
  using digit_cases [OF assms]
  by (auto simp: digit_def isDigit_def digitValue_def)

lemma isDigit_props:
  assumes "isDigit c"
  shows "digitValue c < 10" and "digit (digitValue c) = c"
  using assms by (auto simp: isDigit_def digit_def digitValue_def)

lemma numeralValue_snoc:
  "numeralValue (s @ [c]) = 10 * numeralValue s + digitValue c"
  by (simp add: numeralValue_def)

lemma digits_small: "n < 10 \<Longrightarrow> digits n = [digit n]"
  by (simp add: digits.simps)

lemma digits_large:
  "\<not> n < 10 \<Longrightarrow> digits n = digits (n div 10) @ [digit (n mod 10)]"
  by (subst digits.simps) simp

lemma digits_nonempty: "digits n \<noteq> []"
  by (cases "n < 10") (simp_all add: digits_small digits_large)

lemma digits_value: "numeralValue (digits n) = n"
proof (induction n rule: digits.induct)
  case (1 n)
  show ?case
  proof (cases "n < 10")
    case True
    then show ?thesis
      by (simp add: digits_small numeralValue_def digit_props)
  next
    case False
    with 1 show ?thesis
      by (simp add: digits_large numeralValue_snoc digit_props)
  qed
qed

lemma digits_all: "list_all isDigit (digits n)"
proof (induction n rule: digits.induct)
  case (1 n)
  show ?case
  proof (cases "n < 10")
    case True
    then show ?thesis by (simp add: digits_small digit_props)
  next
    case False
    with 1 show ?thesis by (simp add: digits_large digit_props)
  qed
qed

lemma digits_leading: "hd (digits n) = CHR ''0'' \<Longrightarrow> digits n = ''0''"
proof (induction n rule: digits.induct)
  case (1 n)
  show ?case
  proof (cases "n < 10")
    case True
    with 1(2) have "n = 0" by (simp add: digits_small digit_props)
    then show ?thesis by (simp add: digits_small digit_def)
  next
    case False
    then have "hd (digits (n div 10)) = CHR ''0''"
      using 1(2) digits_nonempty [of "n div 10"] by (simp add: digits_large)
    with 1(1) False have "digits (n div 10) = ''0''" by simp
    then have "numeralValue (digits (n div 10)) = 0"
      by (simp add: numeralValue_def digitValue_def)
    then have "n div 10 = 0" by (simp add: digits_value)
    with False show ?thesis by simp
  qed
qed

lemma isNumeral_digits: "isNumeral (digits n)"
  using digits_leading [of n] by (simp add: isNumeral_def digits_nonempty digits_all)

lemma digits_of_numeral: "isNumeral s \<Longrightarrow> digits (numeralValue s) = s"
proof (induction s rule: rev_induct)
  case Nil
  then show ?case by (simp add: isNumeral_def)
next
  case (snoc c s)
  from snoc.prems have c: "isDigit c" and all: "list_all isDigit s"
    by (simp_all add: isNumeral_def)
  show ?case
  proof (cases "s = []")
    case True
    then show ?thesis
      using isDigit_props [OF c] by (simp add: numeralValue_def digits_small)
  next
    case False
    then have "hd s \<noteq> CHR ''0''"
      using snoc.prems by (cases s) (auto simp: isNumeral_def)
    then have numeral: "isNumeral s"
      using False all by (simp add: isNumeral_def)
    then have s: "digits (numeralValue s) = s" by (rule snoc.IH)
    have "numeralValue s \<noteq> 0"
    proof
      assume "numeralValue s = 0"
      with s have "s = ''0''" by (simp add: digits_small digit_def)
      with \<open>hd s \<noteq> CHR ''0''\<close> show False by simp
    qed
    then have "\<not> 10 * numeralValue s + digitValue c < 10" by simp
    then show ?thesis
      using isDigit_props [OF c] s by (simp add: numeralValue_snoc digits_large)
  qed
qed

lemma toString_decimal:
  assumes "isSafeInteger n"
  shows "\<exists>rendering. toString n = Some rendering \<and> isDecimal rendering n"
  using assms
  by (simp add: toString_def isDecimal_def isNumeral_digits digits_value)

lemma isDecimal_digits: "0 \<le> n \<Longrightarrow> isDecimal s n \<Longrightarrow> s = digits (nat n)"
  using digits_of_numeral [of s] by (auto simp: isDecimal_def)

lemma isDecimal_unique: "isDecimal s n \<Longrightarrow> isDecimal t n \<Longrightarrow> s = t"
proof (cases "n < 0")
  case True
  assume "isDecimal s n" and "isDecimal t n"
  with True obtain s' t' where "s = CHR ''-'' # s'" "t = CHR ''-'' # t'"
    "isNumeral s'" "isNumeral t'" "numeralValue s' = nat (- n)" "numeralValue t' = nat (- n)"
    by (auto simp: isDecimal_def split: list.splits)
  then show ?thesis
    using digits_of_numeral [of s'] digits_of_numeral [of t'] by simp
next
  case False
  assume "isDecimal s n" and "isDecimal t n"
  with False show ?thesis
    using isDecimal_digits [of n s] isDecimal_digits [of n t] by simp
qed

lemma replace_first: "c \<notin> set a \<Longrightarrow> replace (a @ c # b) c r = a @ r @ b"
  by (induction a) auto

section \<open>The public key of an \<open>HdKey\<close>: the instance path\<close>

lemma publicInstancePath_decimal:
  assumes "offset = (case addressOffset hdKey of
                       Some n \<Rightarrow> n
                     | None \<Rightarrow> hdKeyAddressOffset defaults)"
    and "isSafeInteger index" and "isSafeInteger offset" and "isSafeInteger (index + offset)"
    and "publicDerivationPath hdKey = Some publicPath
         \<or> (publicDerivationPath hdKey = None
             \<and> (case privateDerivationPath hdKey of
                   Some path \<Rightarrow> path
                 | None \<Rightarrow> hdKeyPrivateDerivationPath defaults) = pre @ CHR ''m'' # post
             \<and> CHR ''m'' \<notin> set pre \<and> publicPath = pre @ CHR ''M'' # post)"
    and "publicPath = before @ CHR ''i'' # after" and "CHR ''i'' \<notin> set before"
  shows "\<exists>rendering. isDecimal rendering (index + offset)
     \<and> publicInstancePath defaults (addressOffset hdKey) (privateDerivationPath hdKey)
         (publicDerivationPath hdKey) index = Some (before @ rendering @ after)"
proof -
  obtain rendering where r: "toString (index + offset) = Some rendering"
    "isDecimal rendering (index + offset)"
    using toString_decimal [OF assms(4)] by blast
  have path: "(case publicDerivationPath hdKey of
                 Some path \<Rightarrow> path
               | None \<Rightarrow>
                  replace
                    (case privateDerivationPath hdKey of
                       Some path \<Rightarrow> path
                     | None \<Rightarrow> hdKeyPrivateDerivationPath defaults)
                    CHR ''m'' ''M'') = before @ CHR ''i'' # after"
    using assms(5)
  proof
    assume "publicDerivationPath hdKey = Some publicPath"
    then show ?thesis using assms(6) by simp
  next
    assume "publicDerivationPath hdKey = None
      \<and> (case privateDerivationPath hdKey of
            Some path \<Rightarrow> path
          | None \<Rightarrow> hdKeyPrivateDerivationPath defaults) = pre @ CHR ''m'' # post
      \<and> CHR ''m'' \<notin> set pre \<and> publicPath = pre @ CHR ''M'' # post"
    then show ?thesis
      using assms(6) replace_first [of "CHR ''m''" pre post "''M''"] by simp
  qed
  have "publicInstancePath defaults (addressOffset hdKey) (privateDerivationPath hdKey)
         (publicDerivationPath hdKey) index = Some (before @ rendering @ after)"
    unfolding publicInstancePath_def Let_def path
    using assms(1-4) r(1) replace_first [OF assms(7), of after rendering]
    by (simp add: add_def)
  with r(2) show ?thesis by blast
qed

text \<open>
  Claim C8. In the derivation of the public key of an HD key by the public path (the
  owning entity has no HD private key and has an HD public key, which decodes), with an
  address index and an address offset whose sum is a safe integer, the path given to
  \<open>deriveHdPath\<close> is the public derivation path, by default the private derivation
  path with \<open>m\<close> replaced by \<open>M\<close>, with the placeholder \<open>i\<close> replaced by the decimal
  rendering of the address index plus the address offset. The result of the operation is
  the public key of the node derived along this path, or the error of the derivation.
\<close>

theorem hdKeyPublicKey_instancePath:
  assumes "hdKeys data = Some hds"
    and "entityOwnership environment = Some owners"
    and "get owners (variableIdOf identifier) = Own entityId"
    and "addressIndex hds = Some index"
    and "(case hdPrivateKeys hds of None \<Rightarrow> Undefined | Some prks \<Rightarrow> get prks entityId)
           = Undefined"
    and "(case hdPublicKeys hds of None \<Rightarrow> Undefined | Some pks \<Rightarrow> get pks entityId)
           = Own hdPublicKey"
    and "variables environment = Some vars"
    and "get vars (variableIdOf identifier) = Own hdKey"
    and "decodeHdPublicKey H environment hdPublicKey = Inr masterNode"
    and "offset = (case addressOffset hdKey of
                     Some n \<Rightarrow> n
                   | None \<Rightarrow> hdKeyAddressOffset defaults)"
    and "isSafeInteger index" and "isSafeInteger offset" and "isSafeInteger (index + offset)"
    and "publicDerivationPath hdKey = Some publicPath
         \<or> (publicDerivationPath hdKey = None
             \<and> (case privateDerivationPath hdKey of
                   Some path \<Rightarrow> path
                 | None \<Rightarrow> hdKeyPrivateDerivationPath defaults) = pre @ CHR ''m'' # post
             \<and> CHR ''m'' \<notin> set pre \<and> publicPath = pre @ CHR ''M'' # post)"
    and "publicPath = before @ CHR ''i'' # after" and "CHR ''i'' \<notin> set before"
  shows "\<exists>rendering. isDecimal rendering (index + offset)
     \<and> hdKeyPublicKeyDerived defaults H identifier data environment =
        (case deriveHdPath H environment masterNode (before @ rendering @ after) of
           Inl reason \<Rightarrow>
             Inr (Error (underivablePathMessage identifier (before @ rendering @ after)
                    entityId reason) False)
         | Inr instanceNode \<Rightarrow> Inr (Success (publicKey instanceNode)))"
proof -
  obtain rendering where r: "isDecimal rendering (index + offset)"
    "publicInstancePath defaults (addressOffset hdKey) (privateDerivationPath hdKey)
       (publicDerivationPath hdKey) index = Some (before @ rendering @ after)"
    using publicInstancePath_decimal [OF assms(10-16)] by blast
  have "hdKeyPublicKeyDerived defaults H identifier data environment =
        (case deriveHdPath H environment masterNode (before @ rendering @ after) of
           Inl reason \<Rightarrow>
             Inr (Error (underivablePathMessage identifier (before @ rendering @ after)
                    entityId reason) False)
         | Inr instanceNode \<Rightarrow> Inr (Success (publicKey instanceNode)))"
    using assms(1-9) r(2)
    by (simp add: hdKeyPublicKeyDerived_def hdKeyProperties_def Let_def)
  with r(1) show ?thesis by blast
qed

text \<open>
  Property 7 of the specification: private derivation path \<open>m/0/i\<close>, address index 3
  and address offset 2 give the instance path \<open>M/0/5\<close>.
\<close>

theorem hdKeyPublicKey_instancePath_witness:
  "hdKeys exampleHdData = Some exampleHdKeys
   \<and> entityOwnership exampleHdEnvironment = Some [''key'' \<mapsto> ''owner'']
   \<and> get [''key'' \<mapsto> ''owner''] (variableIdOf ''key.public_key'') = Own ''owner''
   \<and> addressIndex exampleHdKeys = Some 3
   \<and> (case hdPrivateKeys exampleHdKeys of
         None \<Rightarrow> Undefined
       | Some prks \<Rightarrow> get prks ''owner'') = Undefined
   \<and> (case hdPublicKeys exampleHdKeys of
         None \<Rightarrow> Undefined
       | Some pks \<Rightarrow> get pks ''owner'') = Own ''xpub''
   \<and> variables exampleHdEnvironment = Some [''key'' \<mapsto> exampleHdKey]
   \<and> get [''key'' \<mapsto> exampleHdKey] (variableIdOf ''key.public_key'') = Own exampleHdKey
   \<and> decodeHdPublicKey exampleCollaborators exampleHdEnvironment ''xpub''
        = Inr \<lparr> publicKey = [] \<rparr>
   \<and> addressOffset exampleHdKey = Some 2
   \<and> isSafeInteger 3 \<and> isSafeInteger 2 \<and> isSafeInteger (3 + 2)
   \<and> publicDerivationPath exampleHdKey = None
   \<and> privateDerivationPath exampleHdKey = Some (''m'' @ ''/0/i'')
   \<and> CHR ''m'' \<notin> set '''' \<and> CHR ''i'' \<notin> set ''M/0/''
   \<and> isDecimal ''5'' (3 + 2)
   \<and> hdKeyPublicKeyDerived exampleDefaults exampleCollaborators ''key.public_key''
        exampleHdData exampleHdEnvironment = Inr (Success (pathBytes ''M/0/5''))"
proof -
  have v: "variableIdOf ''key.public_key'' = ''key''"
    by (simp add: variableIdOf_def split_def)
  have h: "hdKeys exampleHdData = Some exampleHdKeys"
    "entityOwnership exampleHdEnvironment = Some [''key'' \<mapsto> ''owner'']"
    "get [''key'' \<mapsto> ''owner''] (variableIdOf ''key.public_key'') = Own ''owner''"
    "addressIndex exampleHdKeys = Some 3"
    "(case hdPrivateKeys exampleHdKeys of
        None \<Rightarrow> Undefined
      | Some prks \<Rightarrow> get prks ''owner'') = Undefined"
    "(case hdPublicKeys exampleHdKeys of
        None \<Rightarrow> Undefined
      | Some pks \<Rightarrow> get pks ''owner'') = Own ''xpub''"
    "variables exampleHdEnvironment = Some [''key'' \<mapsto> exampleHdKey]"
    "get [''key'' \<mapsto> exampleHdKey] (variableIdOf ''key.public_key'') = Own exampleHdKey"
    "decodeHdPublicKey exampleCollaborators exampleHdEnvironment ''xpub''
        = Inr \<lparr> publicKey = [] \<rparr>"
    by (simp_all add: v get_def exampleHdData_def exampleHdEnvironment_def
        exampleHdKeys_def exampleCollaborators_def)
  have k: "2 = (case addressOffset exampleHdKey of
                  Some n \<Rightarrow> n
                | None \<Rightarrow> hdKeyAddressOffset exampleDefaults)"
    "addressOffset exampleHdKey = Some 2"
    "publicDerivationPath exampleHdKey = None"
    "privateDerivationPath exampleHdKey = Some (''m'' @ ''/0/i'')"
    by (simp_all add: exampleHdKey_def)
  have safe: "isSafeInteger 3" "isSafeInteger 2" "isSafeInteger (3 + 2)"
    by (simp_all add: isSafeInteger_def)
  have path: "publicDerivationPath exampleHdKey = Some ''M/0/i''
         \<or> (publicDerivationPath exampleHdKey = None
             \<and> (case privateDerivationPath exampleHdKey of
                   Some path \<Rightarrow> path
                 | None \<Rightarrow> hdKeyPrivateDerivationPath exampleDefaults)
               = '''' @ CHR ''m'' # ''/0/i''
             \<and> CHR ''m'' \<notin> set '''' \<and> ''M/0/i'' = '''' @ CHR ''M'' # ''/0/i'')"
    by (simp add: exampleHdKey_def)
  have split: "''M/0/i'' = ''M/0/'' @ CHR ''i'' # ''''" "CHR ''i'' \<notin> set ''M/0/''"
    by simp_all
  have five: "isDecimal ''5'' (3 + 2)"
    by (simp add: isDecimal_def isNumeral_def isDigit_def numeralValue_def digitValue_def)
  obtain rendering where r: "isDecimal rendering (3 + 2)"
    "hdKeyPublicKeyDerived exampleDefaults exampleCollaborators ''key.public_key''
       exampleHdData exampleHdEnvironment =
     (case deriveHdPath exampleCollaborators exampleHdEnvironment \<lparr> publicKey = [] \<rparr>
             (''M/0/'' @ rendering @ '''') of
        Inl reason \<Rightarrow>
          Inr (Error (underivablePathMessage ''key.public_key'' (''M/0/'' @ rendering @ '''')
                 ''owner'' reason) False)
      | Inr instanceNode \<Rightarrow> Inr (Success (publicKey instanceNode)))"
    using hdKeyPublicKey_instancePath [OF h k(1) safe path split]
    by (elim exE conjE)
  have "rendering = ''5''"
    using isDecimal_unique [OF r(1) five] .
  then have "hdKeyPublicKeyDerived exampleDefaults exampleCollaborators ''key.public_key''
       exampleHdData exampleHdEnvironment = Inr (Success (pathBytes ''M/0/5''))"
    using r(2) by (simp add: exampleCollaborators_def)
  then show ?thesis
    using h k safe five by simp
qed

text \<open>
  The exported operation is the chain of the precomputed key and the derivation: where the
  data has no derived public key for the variable and the environment has the required
  properties, its result is the result of the derivation.
\<close>

lemma attempt_final:
  assumes "first identifier data environment = Inr Skip"
    and "final identifier data environment \<noteq> Inr Skip"
  shows "attemptCompilerOperations [first] final identifier data environment
         = final identifier data environment"
proof (cases "final identifier data environment")
  case (Inl e)
  then show ?thesis using assms by (simp add: attemptCompilerOperations_def)
next
  case (Inr result)
  then show ?thesis using assms
    by (cases result) (simp_all add: attemptCompilerOperations_def)
qed

lemma hdKeyPublicKey_chain:
  assumes "hdKeys data = Some hds"
    and "(case derivedPublicKeys hds of
            None \<Rightarrow> Undefined
          | Some dpks \<Rightarrow> get dpks (variableIdOf identifier)) = Undefined"
    and "entityOwnership environment \<noteq> None" and "ripemd160 environment \<noteq> None"
    and "secp256k1 environment \<noteq> None" and "sha256 environment \<noteq> None"
    and "sha512 environment \<noteq> None" and "variables environment \<noteq> None"
    and "hdKeyPublicKeyDerived defaults H identifier data environment \<noteq> Inr Skip"
  shows "compilerOperationHdKeyPublicKeyCommon defaults H identifier data environment
         = hdKeyPublicKeyDerived defaults H identifier data environment"
proof -
  have first: "compilerOperationRequires True [''hdKeys''] [] hdKeyPublicKeyPrecomputed
      identifier data environment = Inr Skip"
    using assms(1,2)
    by (auto simp: compilerOperationRequires_def dataProperty_def
        hdKeyPublicKeyPrecomputed_def Let_def split: option.splits)
  have final: "compilerOperationRequires False [''hdKeys'']
          [''entityOwnership'', ''ripemd160'', ''secp256k1'', ''sha256'', ''sha512'',
           ''variables'']
          (hdKeyPublicKeyDerived defaults H) identifier data environment
      = hdKeyPublicKeyDerived defaults H identifier data environment"
    using assms(1,3-8)
    by (intro requires_present) (simp_all add: dataProperty_def environmentProperty_def)
  show ?thesis
    unfolding compilerOperationHdKeyPublicKeyCommon_def
    using attempt_final [of "compilerOperationRequires True [''hdKeys''] []
        hdKeyPublicKeyPrecomputed" "identifier" data environment
        "compilerOperationRequires False [''hdKeys'']
          [''entityOwnership'', ''ripemd160'', ''secp256k1'', ''sha256'', ''sha512'',
           ''variables''] (hdKeyPublicKeyDerived defaults H)"] first final assms(9)
    by simp
qed

section \<open>From a template to a compilation environment: ownership\<close>

lemma owned_fold:
  "foldl (\<lambda>owned variableId. owned(variableId \<mapsto> entityId)) m ids
     = (\<lambda>v. if v \<in> set ids then Some entityId else m v)"
  by (induction ids arbitrary: m) (auto simp: fun_eq_iff)

lemma variableIds_declared: "variableIds entity = map fst (declaredVariables entity)"
  by (simp add: variableIds_def declaredVariables_def split: option.splits)

lemma spread_declared: "spread all (entityVariables entity) = all ++ map_of (declaredVariables entity)"
  by (simp add: spread_def declaredVariables_def split: option.splits)

lemma environment_maps:
  "variables (authenticationTemplateToCompilationEnvironment template)
     = Some (foldl (\<lambda>all entity. all ++ map_of (declaredVariables entity)) Map.empty
               (map snd (templateEntities template)))"
  "entityOwnership (authenticationTemplateToCompilationEnvironment template)
     = Some (foldl (\<lambda>all (entityId, entity).
                      all ++ (\<lambda>v. if v \<in> set (variableIds entity) then Some entityId else None))
               Map.empty (templateEntities template))"
  by (simp_all add: authenticationTemplateToCompilationEnvironment_def Let_def owned_fold
      spread_declared)

lemma map_add_apply: "(m ++ n) v = (if n v = None then m v else n v)"
  by (simp add: map_add_def split: option.splits)

lemma last_wins:
  fixes entities :: "(string \<times> AuthenticationTemplateEntity) list"
  defines "vars \<equiv> \<lambda>es. foldl (\<lambda>all entity. all ++ map_of (declaredVariables entity))
                        Map.empty (map snd es)"
    and "owners \<equiv> \<lambda>es. foldl (\<lambda>all (entityId, entity).
                      all ++ (\<lambda>v. if v \<in> set (variableIds entity) then Some entityId else None))
               Map.empty es"
    and "decl \<equiv> \<lambda>es v. filter (\<lambda>(entityId, entity). v \<in> set (variableIds entity)) es"
  shows "(decl entities v = [] \<longrightarrow> vars entities v = None \<and> owners entities v = None)
       \<and> (decl entities v \<noteq> [] \<longrightarrow>
            owners entities v = Some (fst (last (decl entities v)))
            \<and> vars entities v = map_of (declaredVariables (snd (last (decl entities v)))) v
            \<and> vars entities v \<noteq> None)"
proof (induction entities rule: rev_induct)
  case Nil
  show ?case by (simp add: vars_def owners_def decl_def)
next
  case (snoc entry entities)
  obtain entityId entity where entry: "entry = (entityId, entity)" by (cases entry)
  have step:
    "vars (entities @ [entry]) v
       = (if map_of (declaredVariables entity) v = None then vars entities v
          else map_of (declaredVariables entity) v)"
    "owners (entities @ [entry]) v
       = (if v \<in> set (variableIds entity) then Some entityId else owners entities v)"
    "decl (entities @ [entry]) v
       = (if v \<in> set (variableIds entity) then decl entities v @ [entry]
          else decl entities v)"
    by (simp_all add: vars_def owners_def decl_def entry map_add_apply)
  have dom: "v \<in> set (variableIds entity) \<longleftrightarrow> map_of (declaredVariables entity) v \<noteq> None"
    by (simp add: variableIds_declared map_of_eq_None_iff)
  show ?case
  proof (cases "v \<in> set (variableIds entity)")
    case True
    then show ?thesis using dom by (simp add: step) (auto simp: entry)
  next
    case False
    then show ?thesis using dom snoc by (simp add: step) metis
  qed
qed

text \<open>
  Claim C10. The environment of a template has a \<open>variables\<close> map and an
  \<open>entityOwnership\<close> map with the same keys: the variable ids the entities of the
  template declare (an entity without variables contributes none). Each variable id is
  mapped to one entity and one variable: those of the last entity, in the order of
  enumeration, that declares it.
\<close>

theorem templateEnvironment_ownership:
  "\<exists>vars owners.
     variables (authenticationTemplateToCompilationEnvironment template) = Some vars
     \<and> entityOwnership (authenticationTemplateToCompilationEnvironment template) = Some owners
     \<and> dom vars = dom owners
     \<and> dom owners = (\<Union>entry \<in> set (templateEntities template). set (variableIds (snd entry)))
     \<and> (\<forall>variableId \<in> dom owners.
          owners variableId = Some (fst (last (declaring template variableId)))
          \<and> vars variableId
              = map_of (declaredVariables (snd (last (declaring template variableId))))
                  variableId)"
proof -
  let ?vars = "foldl (\<lambda>all entity. all ++ map_of (declaredVariables entity)) Map.empty
               (map snd (templateEntities template))"
  let ?owners = "foldl (\<lambda>all (entityId, entity).
                      all ++ (\<lambda>v. if v \<in> set (variableIds entity) then Some entityId else None))
               Map.empty (templateEntities template)"
  note lw = last_wins [of _ "templateEntities template", folded declaring_def]
  have empty: "declaring template v = [] \<longleftrightarrow>
      v \<notin> (\<Union>entry \<in> set (templateEntities template). set (variableIds (snd entry)))" for v
    by (auto simp: declaring_def filter_empty_conv)
  have d1: "v \<in> dom ?owners \<longleftrightarrow> declaring template v \<noteq> []" for v
    using lw [of v] by (cases "declaring template v = []") auto
  have d2: "v \<in> dom ?vars \<longleftrightarrow> declaring template v \<noteq> []" for v
    using lw [of v] by (cases "declaring template v = []") auto
  have "dom ?vars = dom ?owners" using d1 d2 by blast
  moreover have "dom ?owners
      = (\<Union>entry \<in> set (templateEntities template). set (variableIds (snd entry)))"
    using d1 empty by blast
  moreover have "\<forall>variableId \<in> dom ?owners.
          ?owners variableId = Some (fst (last (declaring template variableId)))
          \<and> ?vars variableId
              = map_of (declaredVariables (snd (last (declaring template variableId))))
                  variableId"
    using d1 lw by blast
  ultimately show ?thesis
    using environment_maps [of template] by blast
qed

theorem templateEnvironment_ownership_witness:
  "\<exists>vars owners.
     variables (authenticationTemplateToCompilationEnvironment exampleTemplate) = Some vars
     \<and> entityOwnership (authenticationTemplateToCompilationEnvironment exampleTemplate)
          = Some owners
     \<and> dom vars = dom owners
     \<and> dom owners = {''key'', ''first''}
     \<and> owners ''key'' = Some ''owner'' \<and> vars ''key'' = Some exampleHdKey
     \<and> owners ''first'' = Some ''signer'' \<and> vars ''first'' = Some exampleKey"
proof -
  obtain vars owners where
    env: "variables (authenticationTemplateToCompilationEnvironment exampleTemplate) = Some vars"
      "entityOwnership (authenticationTemplateToCompilationEnvironment exampleTemplate)
         = Some owners"
    and doms: "dom vars = dom owners"
      "dom owners
         = (\<Union>entry \<in> set (templateEntities exampleTemplate). set (variableIds (snd entry)))"
    and last: "\<forall>variableId \<in> dom owners.
          owners variableId = Some (fst (last (declaring exampleTemplate variableId)))
          \<and> vars variableId
              = map_of (declaredVariables (snd (last (declaring exampleTemplate variableId))))
                  variableId"
    using templateEnvironment_ownership [of exampleTemplate] by (elim exE conjE)
  have ids: "(\<Union>entry \<in> set (templateEntities exampleTemplate). set (variableIds (snd entry)))
      = {''key'', ''first''}"
    by (auto simp: exampleTemplate_def variableIds_def)
  have key: "fst (last (declaring exampleTemplate ''key'')) = ''owner''"
    "map_of (declaredVariables (snd (last (declaring exampleTemplate ''key'')))) ''key''
       = Some exampleHdKey"
    by (simp_all add: declaring_def exampleTemplate_def variableIds_def declaredVariables_def)
  have first: "fst (last (declaring exampleTemplate ''first'')) = ''signer''"
    "map_of (declaredVariables (snd (last (declaring exampleTemplate ''first'')))) ''first''
       = Some exampleKey"
    by (simp_all add: declaring_def exampleTemplate_def variableIds_def declaredVariables_def)
  have "''key'' \<in> dom owners" "''first'' \<in> dom owners"
    using doms(2) ids by simp_all
  then have "owners ''key'' = Some ''owner''" "vars ''key'' = Some exampleHdKey"
    "owners ''first'' = Some ''signer''" "vars ''first'' = Some exampleKey"
    using last key first by simp_all
  then show ?thesis using env doms(1) doms(2) [unfolded ids] by (intro exI conjI)
qed

end
